theory Spec2Isabelle
  imports Complex_Main "HOL-Library.Word" "HOL-Library.Multiset" "HOL-Library.Sublist"
begin

unbundle bit_operations_syntax

section \<open>DingDingNews: a shallow embedding of \<^verbatim>\<open>main.py\<close>\<close>

text \<open>
  The program reads three secrets from the process environment, queries a news API once
  per keyword, filters and deduplicates the returned article records, keeps the records
  of the last two days, shuffles them, truncates to \<^verbatim>\<open>NEWS_LIMIT\<close> and posts a
  markdown message to a signed webhook URL.

  Conventions of the model:
  \<^item> A Python \<^verbatim>\<open>str\<close> is a \<^typ>\<open>string\<close> holding its UTF-8 encoding, so
    \<^verbatim>\<open>s.encode("utf-8")\<close> keeps the characters and only changes the type. Whitespace
    and letter case are those of ASCII; this is exact for every text whose non-ASCII
    characters are neither whitespace nor cased.
  \<^item> A decoded JSON document is a value of the datatype \<open>json\<close>; a JSON object is an
    association list read with \<^const>\<open>map_of\<close>.
  \<^item> A naive \<^verbatim>\<open>datetime\<close> is an \<^typ>\<open>int\<close>: microseconds on the proleptic Gregorian
    time line. \<^verbatim>\<open>timedelta(days=d)\<close> is \<open>d\<close> times 86400000000.
  \<^item> Every exception of the source is a value \<open>Inl e\<close>; the clock, the network, the
    random generator and the library's date parser are fields of the record \<open>env\<close>;
    everything the program prints, requests or posts is appended to the trace of the
    \<open>world\<close>.
\<close>

subsection \<open>Values decoded from JSON\<close>

datatype json =
    JNull
  | JBool bool
  | JInt int
  | JFloat rat
  | JStr string
  | JArr "json list"
  | JObj "(string \<times> json) list"

datatype error =
    ValueError
  | TypeError
  | AttributeError
  | JSONDecodeError
  | RequestException

text \<open>Python's truth value of a decoded JSON value (\<^verbatim>\<open>not x\<close> is its negation).\<close>

fun truthy :: "json \<Rightarrow> bool" where
  "truthy JNull = False"
| "truthy (JBool b) = b"
| "truthy (JInt i) = (i \<noteq> 0)"
| "truthy (JFloat r) = (r \<noteq> 0)"
| "truthy (JStr s) = (s \<noteq> [])"
| "truthy (JArr xs) = (xs \<noteq> [])"
| "truthy (JObj kvs) = (kvs \<noteq> [])"

text \<open>
  \<^verbatim>\<open>x.get(k, default)\<close>: only a dict has the method; every other value raises
  \<^verbatim>\<open>AttributeError\<close>.
\<close>

fun py_get :: "json \<Rightarrow> string \<Rightarrow> json \<Rightarrow> error + json" where
  "py_get (JObj kvs) k d = Inr (case map_of kvs k of None \<Rightarrow> d | Some v \<Rightarrow> v)"
| "py_get _ k d = Inl AttributeError"

text \<open>
  Membership in a Python \<^verbatim>\<open>set\<close> goes through \<^verbatim>\<open>hash\<close> and \<^verbatim>\<open>==\<close>: lists and dicts
  are unhashable (\<^verbatim>\<open>TypeError\<close>); \<^verbatim>\<open>True\<close>, \<^verbatim>\<open>1\<close> and \<^verbatim>\<open>1.0\<close> are the same element.
\<close>

datatype key = KNone | KNum rat | KStr string

fun py_hash :: "json \<Rightarrow> key option" where
  "py_hash JNull = Some KNone"
| "py_hash (JBool b) = Some (KNum (if b then 1 else 0))"
| "py_hash (JInt i) = Some (KNum (of_int i))"
| "py_hash (JFloat r) = Some (KNum r)"
| "py_hash (JStr s) = Some (KStr s)"
| "py_hash (JArr xs) = None"
| "py_hash (JObj kvs) = None"

text \<open>\<^verbatim>\<open>len(x)\<close> and \<^verbatim>\<open>for a in x\<close> on a decoded JSON value.\<close>

fun py_len :: "json \<Rightarrow> nat option" where
  "py_len (JStr s) = Some (length s)"
| "py_len (JArr xs) = Some (length xs)"
| "py_len (JObj kvs) = Some (length kvs)"
| "py_len _ = None"

fun py_iter :: "json \<Rightarrow> json list" where
  "py_iter (JStr s) = map (\<lambda>c. JStr [c]) s"
| "py_iter (JArr xs) = xs"
| "py_iter (JObj kvs) = map (\<lambda>kv. JStr (fst kv)) kvs"
| "py_iter _ = []"

subsection \<open>String methods\<close>

definition isspace :: "char \<Rightarrow> bool" where
  "isspace c \<longleftrightarrow> c \<in> set [CHR 0x09, CHR 0x0A, CHR 0x0B, CHR 0x0C, CHR 0x0D,
                           CHR 0x1C, CHR 0x1D, CHR 0x1E, CHR 0x1F, CHR 0x20]"

definition strip :: "string \<Rightarrow> string" where
  "strip s = rev (dropWhile isspace (rev (dropWhile isspace s)))"

definition lower_char :: "char \<Rightarrow> char" where
  "lower_char c = (if c \<in> set ''ABCDEFGHIJKLMNOPQRSTUVWXYZ''
                   then char_of (of_char c + (32::nat)) else c)"

definition lower :: "string \<Rightarrow> string" where
  "lower s = map lower_char s"

fun join :: "string \<Rightarrow> string list \<Rightarrow> string" where
  "join sep [] = []"
| "join sep [x] = x"
| "join sep (x # y # ys) = x @ sep @ join sep (y # ys)"

function digits :: "int \<Rightarrow> string" where
  "digits n = (if n < 10 then [''0123456789'' ! nat n]
               else digits (n div 10) @ [''0123456789'' ! nat (n mod 10)])"
  by pat_completeness auto
termination
  by (relation "measure nat") auto

text \<open>\<^verbatim>\<open>str(i)\<close> for a Python \<^verbatim>\<open>int\<close>.\<close>

definition str_int :: "int \<Rightarrow> string" where
  "str_int i = (if i < 0 then CHR ''-'' # digits (- i) else digits i)"

subsection \<open>\<^verbatim>\<open>urllib.parse.quote\<close> and \<^verbatim>\<open>quote_plus\<close>\<close>

type_synonym byte = "8 word"
type_synonym u32 = "32 word"

definition encode_utf8 :: "string \<Rightarrow> byte list" where
  "encode_utf8 s = map (\<lambda>c. of_char c) s"

definition always_safe :: "char \<Rightarrow> bool" where
  "always_safe c \<longleftrightarrow>
     c \<in> set ''ABCDEFGHIJKLMNOPQRSTUVWXYZabcdefghijklmnopqrstuvwxyz0123456789_.-~''"

definition hex_digit :: "byte \<Rightarrow> char" where
  "hex_digit n = ''0123456789ABCDEF'' ! unat (n AND 15)"

definition percent :: "char \<Rightarrow> string" where
  "percent c = [CHR ''%'', hex_digit (drop_bit 4 (of_char c)), hex_digit (of_char c)]"

text \<open>\<^verbatim>\<open>quote(s)\<close> with its default \<^verbatim>\<open>safe='/'\<close>.\<close>

definition quote :: "string \<Rightarrow> string" where
  "quote s = concat (map (\<lambda>c. if always_safe c \<or> c = CHR ''/'' then [c] else percent c) s)"

text \<open>\<^verbatim>\<open>quote_plus(s)\<close> with its default \<^verbatim>\<open>safe=''\<close>: a space becomes \<^verbatim>\<open>+\<close>.\<close>

definition quote_plus :: "string \<Rightarrow> string" where
  "quote_plus s =
     concat (map (\<lambda>c. if c = CHR '' '' then ''+'' else if always_safe c then [c] else percent c) s)"

subsection \<open>\<^verbatim>\<open>base64.b64encode\<close>\<close>

definition b64_alphabet :: string where
  "b64_alphabet = ''ABCDEFGHIJKLMNOPQRSTUVWXYZabcdefghijklmnopqrstuvwxyz0123456789+/''"

definition b64_char :: "byte \<Rightarrow> char" where
  "b64_char n = b64_alphabet ! unat (n AND 63)"

fun b64encode :: "byte list \<Rightarrow> string" where
  "b64encode [] = []"
| "b64encode [a] =
     [b64_char (drop_bit 2 a), b64_char (push_bit 4 (a AND 3)), CHR ''='', CHR ''='']"
| "b64encode [a, b] =
     [b64_char (drop_bit 2 a), b64_char (push_bit 4 (a AND 3) OR drop_bit 4 b),
      b64_char (push_bit 2 (b AND 15)), CHR ''='']"
| "b64encode (a # b # c # rest) =
     [b64_char (drop_bit 2 a), b64_char (push_bit 4 (a AND 3) OR drop_bit 4 b),
      b64_char (push_bit 2 (b AND 15) OR drop_bit 6 c), b64_char c] @ b64encode rest"

subsection \<open>\<^verbatim>\<open>hashlib.sha256\<close> (FIPS 180-4) and \<^verbatim>\<open>hmac\<close> (RFC 2104)\<close>

text \<open>
  The round constants: the first 32 bits of the fractional parts of the cube roots of the
  first 64 primes.
\<close>

definition sha256_K :: "u32 list" where
  "sha256_K =
   [1116352408, 1899447441, 3049323471, 3921009573, 961987163, 1508970993,
    2453635748, 2870763221, 3624381080, 310598401, 607225278, 1426881987,
    1925078388, 2162078206, 2614888103, 3248222580, 3835390401, 4022224774,
    264347078, 604807628, 770255983, 1249150122, 1555081692, 1996064986,
    2554220882, 2821834349, 2952996808, 3210313671, 3336571891, 3584528711,
    113926993, 338241895, 666307205, 773529912, 1294757372, 1396182291,
    1695183700, 1986661051, 2177026350, 2456956037, 2730485921, 2820302411,
    3259730800, 3345764771, 3516065817, 3600352804, 4094571909, 275423344,
    430227734, 506948616, 659060556, 883997877, 958139571, 1322822218,
    1537002063, 1747873779, 1955562222, 2024104815, 2227730452, 2361852424,
    2428436474, 2756734187, 3204031479, 3329325298]"

definition rotr :: "nat \<Rightarrow> u32 \<Rightarrow> u32" where
  "rotr n x = (drop_bit n x) OR (push_bit (32 - n) x)"

definition Ch :: "u32 \<Rightarrow> u32 \<Rightarrow> u32 \<Rightarrow> u32" where
  "Ch x y z = (x AND y) XOR (NOT x AND z)"

definition Maj :: "u32 \<Rightarrow> u32 \<Rightarrow> u32 \<Rightarrow> u32" where
  "Maj x y z = (x AND y) XOR (x AND z) XOR (y AND z)"

definition Sigma0 :: "u32 \<Rightarrow> u32" where
  "Sigma0 x = rotr 2 x XOR rotr 13 x XOR rotr 22 x"

definition Sigma1 :: "u32 \<Rightarrow> u32" where
  "Sigma1 x = rotr 6 x XOR rotr 11 x XOR rotr 25 x"

definition sigma0 :: "u32 \<Rightarrow> u32" where
  "sigma0 x = rotr 7 x XOR rotr 18 x XOR drop_bit 3 x"

definition sigma1 :: "u32 \<Rightarrow> u32" where
  "sigma1 x = rotr 17 x XOR rotr 19 x XOR drop_bit 10 x"

fun be_word :: "byte list \<Rightarrow> u32" where
  "be_word [] = 0"
| "be_word (b # bs) = push_bit (8 * length bs) (ucast b) OR be_word bs"

fun chunks :: "nat \<Rightarrow> 'a list \<Rightarrow> 'a list list" where
  "chunks n [] = []"
| "chunks n (x # xs) = (if n = 0 then [] else take n (x # xs) # chunks n (drop n (x # xs)))"

definition length_bytes :: "64 word \<Rightarrow> byte list" where
  "length_bytes n = map (\<lambda>i. ucast (drop_bit (8 * i) n)) [7, 6, 5, 4, 3, 2, 1, 0]"

definition sha256_pad :: "byte list \<Rightarrow> byte list" where
  "sha256_pad m =
     m @ [0x80] @ replicate ((119 - length m mod 64) mod 64) 0 @ length_bytes (of_nat (8 * length m))"

fun schedule :: "nat \<Rightarrow> u32 list \<Rightarrow> u32 list" where
  "schedule 0 w = w"
| "schedule (Suc n) w =
     (let t = length w
      in schedule n (w @ [sigma1 (w ! (t - 2)) + w ! (t - 7) + sigma0 (w ! (t - 15)) + w ! (t - 16)]))"

type_synonym sha_state = "u32 \<times> u32 \<times> u32 \<times> u32 \<times> u32 \<times> u32 \<times> u32 \<times> u32"

fun sha256_round :: "sha_state \<Rightarrow> u32 \<times> u32 \<Rightarrow> sha_state" where
  "sha256_round (a, b, c, d, e, f, g, h) (k, w) =
     (let t1 = h + Sigma1 e + Ch e f g + k + w;
          t2 = Sigma0 a + Maj a b c
      in (t1 + t2, a, b, c, d + t1, e, f, g))"

fun sha256_compress :: "sha_state \<Rightarrow> byte list \<Rightarrow> sha_state" where
  "sha256_compress (a, b, c, d, e, f, g, h) block =
     (let w = schedule 48 (map be_word (chunks 4 block));
          (a', b', c', d', e', f', g', h') = foldl sha256_round (a, b, c, d, e, f, g, h) (zip sha256_K w)
      in (a + a', b + b', c + c', d + d', e + e', f + f', g + g', h + h'))"

definition word_bytes :: "u32 \<Rightarrow> byte list" where
  "word_bytes x = [ucast (drop_bit 24 x), ucast (drop_bit 16 x), ucast (drop_bit 8 x), ucast x]"

text \<open>
  The initial hash value: the first 32 bits of the fractional parts of the square roots of
  the first 8 primes.
\<close>

definition sha256_H0 :: sha_state where
  "sha256_H0 =
     (1779033703, 3144134277, 1013904242, 2773480762,
      1359893119, 2600822924, 528734635, 1541459225)"

fun digest_bytes :: "sha_state \<Rightarrow> byte list" where
  "digest_bytes (a, b, c, d, e, f, g, h) = concat (map word_bytes [a, b, c, d, e, f, g, h])"

definition sha256 :: "byte list \<Rightarrow> byte list" where
  "sha256 m = digest_bytes (foldl sha256_compress sha256_H0 (chunks 64 (sha256_pad m)))"

definition hmac_sha256 :: "byte list \<Rightarrow> byte list \<Rightarrow> byte list" where
  "hmac_sha256 key msg =
     (let k0 = (if length key > 64 then sha256 key else key);
          k = k0 @ replicate (64 - length k0) 0
      in sha256 (map (\<lambda>b. b XOR 0x5c) k @ sha256 (map (\<lambda>b. b XOR 0x36) k @ msg)))"

subsection \<open>Configuration, environment and world\<close>

text \<open>The module-level constants.\<close>

definition KEYWORDS :: "string list" where
  "KEYWORDS = [''sewing thread'']"

definition DAYS_FILTER :: int where
  "DAYS_FILTER = 360"

definition NEWS_LIMIT :: nat where
  "NEWS_LIMIT = 3"

text \<open>The three globals read from the environment at import time.\<close>

record config =
  NEWSAPI_KEY :: string
  DINGTALK_WEBHOOK :: string
  DINGTALK_SECRET :: string

text \<open>\<^verbatim>\<open>timedelta(days=d)\<close> in microseconds.\<close>

definition timedelta_days :: "int \<Rightarrow> int" where
  "timedelta_days d = d * 86400000000"

text \<open>The dict appended to \<^verbatim>\<open>all_news\<close>.\<close>

record news =
  title :: json
  description :: json
  url :: json
  image_str :: string
  published :: string
  published_dt :: int
  source :: json
  region :: string

text \<open>A \<^verbatim>\<open>requests.Response\<close>: \<open>json_body = None\<close> when \<^verbatim>\<open>response.json()\<close> raises.\<close>

record response =
  status_code :: int
  resp_text :: string
  json_body :: "json option"

text \<open>The JSON payload of the POST.\<close>

record payload =
  msgtype :: string
  markdown_title :: string
  markdown_text :: string

text \<open>What the program prints, one constructor per \<^verbatim>\<open>print\<close> statement.\<close>

datatype message =
    Msg_fetching string
  | Msg_fetch_failed string
  | Msg_fetched nat int
  | Msg_recent nat
  | Msg_no_news
  | Msg_debug "news list"
  | Msg_push_status int string
  | Msg_total nat
  | Msg_item nat news

datatype event =
    Stdout message
  | HttpGet string
  | HttpPost string payload

text \<open>
  The world threaded through the run: how many times the clock has been read and what
  the program has done so far.
\<close>

record world =
  clock :: nat
  trace :: "event list"

definition emit :: "event \<Rightarrow> world \<Rightarrow> world" where
  "emit e w = w\<lparr>trace := trace w @ [e]\<rparr>"

definition tick :: "world \<Rightarrow> world" where
  "tick w = w\<lparr>clock := Suc (clock w)\<rparr>"

text \<open>
  Everything outside the program. \<open>getenv\<close> is the environment after \<^verbatim>\<open>load_dotenv()\<close>;
  \<open>utcnow k\<close> and \<open>time_ms k\<close> are what \<^verbatim>\<open>datetime.utcnow()\<close> and
  \<^verbatim>\<open>round(time.time() * 1000)\<close> return at the \<open>k\<close>-th reading of the clock;
  \<open>strptime\<close> is \<^verbatim>\<open>datetime.strptime(_, "%Y-%m-%dT%H:%M:%SZ")\<close> (\<open>None\<close> when it
  raises) and \<open>strftime\<close> is \<^verbatim>\<open>_.strftime("%Y-%m-%d %H:%M")\<close>; \<open>shuffle\<close> is the
  permutation \<^verbatim>\<open>random.shuffle\<close> applies; \<open>py_str\<close> is the text an f-string inserts for
  a value.
\<close>

record env =
  getenv :: "string \<Rightarrow> string option"
  utcnow :: "nat \<Rightarrow> int"
  time_ms :: "nat \<Rightarrow> int"
  http_get :: "string \<Rightarrow> error + response"
  http_post :: "string \<Rightarrow> payload \<Rightarrow> error + response"
  strptime :: "string \<Rightarrow> int option"
  strftime :: "int \<Rightarrow> string"
  shuffle :: "news list \<Rightarrow> news list"
  py_str :: "json \<Rightarrow> string"

subsection \<open>Module level: the configuration check\<close>

text \<open>
  \<^verbatim>\<open>if not all([NEWSAPI_KEY, DINGTALK_WEBHOOK, DINGTALK_SECRET]): raise ValueError(...)\<close>
\<close>

definition load_config :: "env \<Rightarrow> error + config" where
  "load_config e =
     (case (getenv e ''NEWSAPI_KEY'', getenv e ''DINGTALK_WEBHOOK'', getenv e ''DINGTALK_SECRET'') of
        (Some k, Some h, Some s) \<Rightarrow>
          if k \<noteq> [] \<and> h \<noteq> [] \<and> s \<noteq> []
          then Inr \<lparr>NEWSAPI_KEY = k, DINGTALK_WEBHOOK = h, DINGTALK_SECRET = s\<rparr>
          else Inl ValueError
      | _ \<Rightarrow> Inl ValueError)"

subsection \<open>\<^verbatim>\<open>sign_url\<close>\<close>

definition sign_url :: "env \<Rightarrow> config \<Rightarrow> world \<Rightarrow> string \<times> world" where
  "sign_url e cfg w =
     (let timestamp = str_int (time_ms e (clock w));
          secret_enc = encode_utf8 (DINGTALK_SECRET cfg);
          string_to_sign = timestamp @ [CHR 0x0A] @ DINGTALK_SECRET cfg;
          hmac_code = hmac_sha256 secret_enc (encode_utf8 string_to_sign);
          sign = quote_plus (b64encode hmac_code)
      in (DINGTALK_WEBHOOK cfg @ ''&timestamp='' @ timestamp @ ''&sign='' @ sign, tick w))"

subsection \<open>\<^verbatim>\<open>fetch_news\<close>\<close>

record fetch_state =
  seen_links :: "key set"
  all_news :: "news list"

text \<open>The \<^verbatim>\<open>try\<close> around \<^verbatim>\<open>strptime\<close> catches every exception, also that of a non-string.\<close>

fun parse_published :: "env \<Rightarrow> json \<Rightarrow> int option" where
  "parse_published e (JStr s) = strptime e s"
| "parse_published e _ = None"

text \<open>
  \<^verbatim>\<open>image = image_url.strip() if isinstance(image_url, str) and image_url.strip() else ""\<close>
\<close>

fun image_of :: "json \<Rightarrow> string" where
  "image_of (JStr s) = (if strip s \<noteq> [] then strip s else [])"
| "image_of _ = []"

text \<open>
  The body of \<^verbatim>\<open>for article in articles\<close>. Every \<^verbatim>\<open>continue\<close> returns the state it has
  reached; the clock is read once, for the recency test.
\<close>

definition process_article ::
  "env \<Rightarrow> json \<Rightarrow> fetch_state \<Rightarrow> world \<Rightarrow> (error + fetch_state) \<times> world" where
  "process_article e article s w =
     (case py_get article ''publishedAt'' JNull of
        Inl err \<Rightarrow> (Inl err, w)
      | Inr published_at \<Rightarrow>
          if \<not> truthy published_at then (Inr s, w)
          else case parse_published e published_at of
            None \<Rightarrow> (Inr s, w)
          | Some pub \<Rightarrow>
              let now = utcnow e (clock w); w1 = tick w in
              if pub < now - timedelta_days DAYS_FILTER then (Inr s, w1)
              else case py_get article ''url'' JNull of
                Inl err \<Rightarrow> (Inl err, w1)
              | Inr url_link \<Rightarrow>
                  if \<not> truthy url_link then (Inr s, w1)
                  else case py_hash url_link of
                    None \<Rightarrow> (Inl TypeError, w1)
                  | Some k \<Rightarrow>
                      if k \<in> seen_links s then (Inr s, w1)
                      else
                        let s1 = s\<lparr>seen_links := insert k (seen_links s)\<rparr> in
                        case py_get article ''source'' (JObj []) of
                          Inl err \<Rightarrow> (Inl err, w1)
                        | Inr src \<Rightarrow>
                            case py_get src ''name'' (JStr []) of
                              Inl err \<Rightarrow> (Inl err, w1)
                            | Inr source_name \<Rightarrow>
                                case py_get article ''urlToImage'' JNull of
                                  Inl err \<Rightarrow> (Inl err, w1)
                                | Inr image_url \<Rightarrow>
                                    let image = image_of image_url in
                                    if sublist ''webp'' (lower image) then (Inr s1, w1)
                                    else case py_get article ''title'' (JStr []) of
                                      Inl err \<Rightarrow> (Inl err, w1)
                                    | Inr ttl \<Rightarrow>
                                        case py_get article ''description'' JNull of
                                          Inl err \<Rightarrow> (Inl err, w1)
                                        | Inr descr \<Rightarrow>
                                            (Inr (s1\<lparr>all_news := all_news s1 @
                                               [\<lparr>title = ttl,
                                                 description = (if truthy descr then descr else JStr []),
                                                 url = url_link,
                                                 image_str = image,
                                                 published = strftime e pub,
                                                 published_dt = pub,
                                                 source = source_name,
                                                 region = []\<rparr>]\<rparr>), w1))"

fun process_articles ::
  "env \<Rightarrow> json list \<Rightarrow> fetch_state \<Rightarrow> world \<Rightarrow> (error + fetch_state) \<times> world" where
  "process_articles e [] s w = (Inr s, w)"
| "process_articles e (a # as) s w =
     (case process_article e a s w of
        (Inl err, w1) \<Rightarrow> (Inl err, w1)
      | (Inr s1, w1) \<Rightarrow> process_articles e as s1 w1)"

text \<open>The URL of the request for one keyword.\<close>

definition news_url :: "config \<Rightarrow> string \<Rightarrow> string" where
  "news_url cfg keyword =
     ''https://newsapi.org/v2/everything?'' @ ''q='' @ quote keyword @ ''&'' @
     ''apiKey='' @ NEWSAPI_KEY cfg @ ''&'' @ ''pageSize=50&'' @ ''sortBy=publishedAt''"

text \<open>The body of \<^verbatim>\<open>for keyword in KEYWORDS\<close>.\<close>

definition fetch_keyword ::
  "env \<Rightarrow> config \<Rightarrow> string \<Rightarrow> fetch_state \<Rightarrow> world \<Rightarrow> (error + fetch_state) \<times> world" where
  "fetch_keyword e cfg keyword s w =
     (let w1 = emit (Stdout (Msg_fetching keyword)) w;
          w2 = emit (HttpGet (news_url cfg keyword)) w1
      in case http_get e (news_url cfg keyword) of
           Inl err \<Rightarrow> (Inl err, w2)
         | Inr resp \<Rightarrow>
             if status_code resp \<noteq> 200
             then (Inr s, emit (Stdout (Msg_fetch_failed (resp_text resp))) w2)
             else case json_body resp of
               None \<Rightarrow> (Inl JSONDecodeError, w2)
             | Some body \<Rightarrow>
                 case py_get body ''articles'' (JArr []) of
                   Inl err \<Rightarrow> (Inl err, w2)
                 | Inr articles \<Rightarrow>
                     case py_len articles of
                       None \<Rightarrow> (Inl TypeError, w2)
                     | Some n \<Rightarrow>
                         process_articles e (py_iter articles) s
                           (emit (Stdout (Msg_fetched n DAYS_FILTER)) w2))"

fun fetch_keywords ::
  "env \<Rightarrow> config \<Rightarrow> string list \<Rightarrow> fetch_state \<Rightarrow> world \<Rightarrow> (error + fetch_state) \<times> world" where
  "fetch_keywords e cfg [] s w = (Inr s, w)"
| "fetch_keywords e cfg (k # ks) s w =
     (case fetch_keyword e cfg k s w of
        (Inl err, w1) \<Rightarrow> (Inl err, w1)
      | (Inr s1, w1) \<Rightarrow> fetch_keywords e cfg ks s1 w1)"

text \<open>
  \<^verbatim>\<open>[n for n in all_news if n["published_dt"] >= datetime.utcnow() - timedelta(days=2)]\<close>:
  the condition reads the clock once for every element.
\<close>

fun recent_filter :: "env \<Rightarrow> news list \<Rightarrow> world \<Rightarrow> news list \<times> world" where
  "recent_filter e [] w = ([], w)"
| "recent_filter e (n # ns) w =
     (let now = utcnow e (clock w);
          (rest, w') = recent_filter e ns (tick w)
      in (if published_dt n \<ge> now - timedelta_days 2 then n # rest else rest, w'))"

definition fetch_news :: "env \<Rightarrow> config \<Rightarrow> world \<Rightarrow> (error + news list) \<times> world" where
  "fetch_news e cfg w =
     (case fetch_keywords e cfg KEYWORDS \<lparr>seen_links = {}, all_news = []\<rparr> w of
        (Inl err, w1) \<Rightarrow> (Inl err, w1)
      | (Inr s, w1) \<Rightarrow>
          let (recent_news, w2) = recent_filter e (all_news s) w1;
              w3 = emit (Stdout (Msg_recent (length recent_news))) w2;
              selected_news = take NEWS_LIMIT (shuffle e recent_news)
          in (Inr selected_news, w3))"

subsection \<open>\<^verbatim>\<open>send_to_dingtalk\<close>\<close>

text \<open>
  What an f-string inserts for a field of a candidate: a string as it is, \<^verbatim>\<open>None\<close>,
  \<^verbatim>\<open>True\<close>, \<^verbatim>\<open>False\<close> and integers by \<^verbatim>\<open>str\<close>, every other value by the environment's
  \<open>py_str\<close>.
\<close>

fun format_value :: "env \<Rightarrow> json \<Rightarrow> string" where
  "format_value e (JStr s) = s"
| "format_value e JNull = ''None''"
| "format_value e (JBool b) = (if b then ''True'' else ''False'')"
| "format_value e (JInt i) = str_int i"
| "format_value e v = py_str e v"

text \<open>The literals of the message, in UTF-8.\<close>

definition lit_source :: string where
  "lit_source = [CHR 0xF0, CHR 0x9F, CHR 0x8C, CHR 0x90, CHR '' '', CHR 0xE6, CHR 0x9D, CHR 0xA5,
                 CHR 0xE6, CHR 0xBA, CHR 0x90, CHR 0xEF, CHR 0xBC, CHR 0x9A]"

definition lit_region :: string where
  "lit_region = [CHR '' '', CHR ''|'', CHR '' '', CHR 0xE5, CHR 0x9C, CHR 0xB0, CHR 0xE5, CHR 0x8C,
                 CHR 0xBA, CHR 0xEF, CHR 0xBC, CHR 0x9A]"

definition lit_time :: string where
  "lit_time = [CHR 0xF0, CHR 0x9F, CHR 0x95, CHR 0x98, CHR '' '', CHR 0xE6, CHR 0x97, CHR 0xB6,
               CHR 0xE9, CHR 0x97, CHR 0xB4, CHR 0xEF, CHR 0xBC, CHR 0x9A]"

definition lit_image :: string where
  "lit_image = [CHR ''!'', CHR ''['', CHR 0xE5, CHR 0x9B, CHR 0xBE, CHR 0xE7, CHR 0x89, CHR 0x87,
                CHR '']'', CHR ''('']"

definition lit_title :: string where
  "lit_title = [CHR 0xF0, CHR 0x9F, CHR 0x93, CHR 0xA2, CHR 0xE6, CHR 0x9C, CHR 0x80, CHR 0xE6,
                CHR 0x96, CHR 0xB0, CHR 0xE9, CHR 0x80, CHR 0x9F, CHR 0xE8, CHR 0xA7, CHR 0x88]"

text \<open>The f-string of one block, before \<^verbatim>\<open>strip()\<close>.\<close>

definition render_block :: "env \<Rightarrow> nat \<Rightarrow> news \<Rightarrow> string" where
  "render_block e i item =
     '' '' @ str_int (int i) @ ''. ['' @ format_value e (title item) @ '']('' @
     format_value e (url item) @ '')'' @ [CHR 0x0A, CHR 0x0A] @
     lit_source @ format_value e (source item) @
     (if region item \<noteq> [] then lit_region @ region item else []) @ [CHR 0x0A] @
     lit_time @ published item @ [CHR 0x0A] @
     (if image_str item \<noteq> [] then lit_image @ image_str item @ '')'' else []) @ [CHR 0x0A]"

text \<open>\<^verbatim>\<open>enumerate(xs, start=1)\<close>\<close>

definition enumerate1 :: "'a list \<Rightarrow> (nat \<times> 'a) list" where
  "enumerate1 xs = zip [1..<Suc (length xs)] xs"

definition send_to_dingtalk ::
  "env \<Rightarrow> config \<Rightarrow> news list \<Rightarrow> world \<Rightarrow> (error + unit) \<times> world" where
  "send_to_dingtalk e cfg news_list w =
     (if news_list = [] then (Inr (), emit (Stdout Msg_no_news) w)
      else
        let w1 = emit (Stdout (Msg_debug news_list)) w;
            content_blocks = map (\<lambda>(i, item). strip (render_block e i item)) (enumerate1 news_list);
            md_text = join ([CHR 0x0A, CHR 0x0A] @ ''---'' @ [CHR 0x0A, CHR 0x0A]) content_blocks;
            data = \<lparr>msgtype = ''markdown'', markdown_title = lit_title, markdown_text = md_text\<rparr>;
            (webhook_url, w2) = sign_url e cfg w1;
            w3 = emit (HttpPost webhook_url data) w2
        in case http_post e webhook_url data of
             Inl err \<Rightarrow> (Inl err, w3)
           | Inr resp \<Rightarrow>
               (Inr (), emit (Stdout (Msg_push_status (status_code resp) (resp_text resp))) w3))"

subsection \<open>The script\<close>

text \<open>
  The module body and the \<^verbatim>\<open>__main__\<close> block: the configuration check, then
  \<^verbatim>\<open>fetch_news\<close>, the summary lines and \<^verbatim>\<open>send_to_dingtalk\<close>.
\<close>

definition main :: "env \<Rightarrow> (error + unit) \<times> world" where
  "main e =
     (case load_config e of
        Inl err \<Rightarrow> (Inl err, \<lparr>clock = 0, trace = []\<rparr>)
      | Inr cfg \<Rightarrow>
          case fetch_news e cfg \<lparr>clock = 0, trace = []\<rparr> of
            (Inl err, w1) \<Rightarrow> (Inl err, w1)
          | (Inr news_list, w1) \<Rightarrow>
              let w2 = emit (Stdout (Msg_total (length news_list))) w1;
                  w3 = foldl (\<lambda>w (i, item). emit (Stdout (Msg_item i item)) w) w2
                         (enumerate1 news_list)
              in send_to_dingtalk e cfg news_list w3)"

subsection \<open>What the fetch loop preserves\<close>

text \<open>What a stretch of the fetch loop may do to the state.\<close>

definition grows :: "env \<Rightarrow> fetch_state \<Rightarrow> fetch_state \<Rightarrow> bool" where
  "grows e s s' \<longleftrightarrow>
     seen_links s \<subseteq> seen_links s' \<and>
     (\<exists>later. all_news s' = all_news s @ later \<and>
        distinct (map (py_hash \<circ> url) later) \<and>
        (\<forall>n \<in> set later.
           py_hash (url n) \<noteq> None \<and>
           the (py_hash (url n)) \<notin> seen_links s \<and>
           the (py_hash (url n)) \<in> seen_links s' \<and>
           \<not> sublist ''webp'' (lower (image_str n)) \<and>
           (\<exists>str. strptime e str = Some (published_dt n))))"

subsection \<open>A concrete environment and concrete articles\<close>

text \<open>
  Three secrets, a clock that starts at 2023-11-14T22:13:20Z and advances by a microsecond
  with every reading, a parser that knows two timestamps (a recent one and one ten days
  old), and a shuffle that reverses the list.
\<close>

definition secrets :: "string \<Rightarrow> string option" where
  "secrets k = (if k = ''NEWSAPI_KEY'' then Some ''k3y''
                else if k = ''DINGTALK_WEBHOOK'' then Some ''https://oapi.dingtalk.com/robot/send?access_token=t0k''
                else if k = ''DINGTALK_SECRET'' then Some ''testsecret'' else None)"

definition ok_response :: "json \<Rightarrow> response" where
  "ok_response body = \<lparr>status_code = 200, resp_text = [], json_body = Some body\<rparr>"

definition strptime0 :: "string \<Rightarrow> int option" where
  "strptime0 s = (if s = ''2023-11-14T22:00:00Z'' then Some 1699999200000000
                  else if s = ''2023-11-04T22:00:00Z'' then Some 1699135200000000 else None)"

definition env_of :: "(string \<Rightarrow> string option) \<Rightarrow> response \<Rightarrow> env" where
  "env_of vars resp =
     \<lparr>getenv = vars,
      utcnow = (\<lambda>k. 1700000000000000 + int k),
      time_ms = (\<lambda>k. 1700000000000),
      http_get = (\<lambda>u. Inr resp),
      http_post = (\<lambda>u p. Inr \<lparr>status_code = 200, resp_text = ''{\"errcode\":0}'', json_body = None\<rparr>),
      strptime = strptime0,
      strftime = (\<lambda>t. if t = 1699999200000000 then ''2023-11-14 22:00'' else ''2023-11-04 22:00''),
      shuffle = rev,
      py_str = (\<lambda>v. ''?'')\<rparr>"

definition cfg0 :: config where
  "cfg0 = \<lparr>NEWSAPI_KEY = ''k3y'', DINGTALK_WEBHOOK = ''https://oapi.dingtalk.com/robot/send?access_token=t0k'', DINGTALK_SECRET = ''testsecret''\<rparr>"

definition url0 :: string where
  "url0 = ''https://newsapi.org/v2/everything?q=sewing%20thread&apiKey=k3y&pageSize=50&sortBy=publishedAt''"

definition article :: "string \<Rightarrow> string \<Rightarrow> json \<Rightarrow> json \<Rightarrow> json" where
  "article pub u ttl img =
     JObj [(''source'', JObj [(''id'', JNull), (''name'', JStr ''Thread Weekly'')]),
           (''title'', ttl), (''description'', JNull), (''url'', JStr u),
           (''urlToImage'', img), (''publishedAt'', JStr pub)]"

definition s0 :: fetch_state where
  "s0 = \<lparr>seen_links = {}, all_news = []\<rparr>"

definition w0 :: world where
  "w0 = \<lparr>clock = 0, trace = []\<rparr>"

definition candidate :: "int \<Rightarrow> string \<Rightarrow> string \<Rightarrow> json \<Rightarrow> string \<Rightarrow> news" where
  "candidate t ts u ttl img =
     \<lparr>title = ttl, description = JStr [], url = JStr u, image_str = img, published = ts,
      published_dt = t, source = JStr ''Thread Weekly'', region = []\<rparr>"

definition recent_at :: string where "recent_at = ''2023-11-14T22:00:00Z''"
definition old_at :: string where "old_at = ''2023-11-04T22:00:00Z''"

definition art_first :: json where
  "art_first = article recent_at ''https://ex.com/a'' (JStr ''First'') JNull"

definition art_second :: json where
  "art_second = article recent_at ''https://ex.com/a'' (JStr ''Second'') JNull"

definition cand_first :: news where
  "cand_first = candidate 1699999200000000 ''2023-11-14 22:00'' ''https://ex.com/a'' (JStr ''First'') []"

definition env_dup :: env where
  "env_dup = env_of secrets (ok_response (JObj [(''status'', JStr ''ok''), (''articles'', JArr [art_first, art_second])]))"

definition s_first :: fetch_state where
  "s_first = \<lparr>seen_links = {KStr ''https://ex.com/a''}, all_news = [cand_first]\<rparr>"



definition art_webp2 :: json where
  "art_webp2 = article recent_at ''https://ex.com/b'' (JStr ''Webp'') (JStr '' https://ex.com/B.WebP?x=1 '')"

definition art_plain :: json where
  "art_plain = article recent_at ''https://ex.com/b'' (JStr ''Plain'') JNull"

definition kvs_null :: "(string \<times> json) list" where
  "kvs_null = [(''title'', JNull), (''description'', JNull), (''url'', JStr ''https://ex.com/n''),
               (''publishedAt'', JStr recent_at)]"

definition art_old :: "string \<Rightarrow> json" where
  "art_old u = article old_at u (JStr ''Old'') JNull"

definition old_batch :: "json list" where
  "old_batch = [art_old ''https://ex.com/1'', art_old ''https://ex.com/2'', art_old ''https://ex.com/3'',
                art_old ''https://ex.com/4'', art_old ''https://ex.com/5'']"

definition env_old :: env where
  "env_old = env_of secrets (ok_response (JObj [(''status'', JStr ''ok''), (''articles'', JArr old_batch)]))"

definition env_mixed :: env where
  "env_mixed = env_of secrets (ok_response (JObj [(''articles'', JArr [art_old ''https://ex.com/1'', art_first])]))"

definition env_empty :: env where
  "env_empty = env_of secrets (ok_response (JObj [(''status'', JStr ''ok''), (''totalResults'', JInt 0), (''articles'', JArr [])]))"

definition env_nofield :: env where
  "env_nofield = env_of secrets (ok_response (JObj [(''status'', JStr ''ok'')]))"

definition resp_201 :: response where
  "resp_201 = \<lparr>status_code = 201, resp_text = ''Created'',
               json_body = Some (JObj [(''status'', JStr ''ok''), (''articles'', JArr [art_first])])\<rparr>"

definition resp_429 :: response where
  "resp_429 = \<lparr>status_code = 429, resp_text = ''rateLimited'', json_body = None\<rparr>"

definition s_webp :: fetch_state where
  "s_webp = \<lparr>seen_links = {KStr ''https://ex.com/b''}, all_news = []\<rparr>"

definition cand_plain :: news where
  "cand_plain = candidate 1699999200000000 ''2023-11-14 22:00'' ''https://ex.com/b'' (JStr ''Plain'') []"

definition cand_null :: news where
  "cand_null = \<lparr>title = JNull, description = JStr [], url = JStr ''https://ex.com/n'', image_str = [],
                 published = ''2023-11-14 22:00'', published_dt = 1699999200000000,
                 source = JStr [], region = []\<rparr>"

definition s_null :: fetch_state where
  "s_null = \<lparr>seen_links = {KStr ''https://ex.com/n''}, all_news = [cand_null]\<rparr>"

definition cand_old :: "string \<Rightarrow> news" where
  "cand_old u = candidate 1699135200000000 ''2023-11-04 22:00'' u (JStr ''Old'') []"

definition s_old :: fetch_state where
  "s_old = \<lparr>seen_links = {KStr ''https://ex.com/1'', KStr ''https://ex.com/2'', KStr ''https://ex.com/3'',
                           KStr ''https://ex.com/4'', KStr ''https://ex.com/5''},
            all_news = [cand_old ''https://ex.com/1'', cand_old ''https://ex.com/2'',
                        cand_old ''https://ex.com/3'', cand_old ''https://ex.com/4'',
                        cand_old ''https://ex.com/5'']\<rparr>"

definition s_mixed :: fetch_state where
  "s_mixed = \<lparr>seen_links = {KStr ''https://ex.com/1'', KStr ''https://ex.com/a''},
              all_news = [cand_old ''https://ex.com/1'', cand_first]\<rparr>"

definition fetched_trace :: "nat \<Rightarrow> event list" where
  "fetched_trace n = [Stdout (Msg_fetching ''sewing thread''), HttpGet url0, Stdout (Msg_fetched n 360)]"

text \<open>
  Two more runs: one whose first article has a \<^verbatim>\<open>publishedAt\<close> the parser rejects and
  shares its url with the second, and one whose only article is dated ten years after
  the clock.
\<close>

definition art_baddate :: json where
  "art_baddate = article ''14 Nov 2023'' ''https://ex.com/a'' (JStr ''First'') JNull"

definition cand_second :: news where
  "cand_second = candidate 1699999200000000 ''2023-11-14 22:00'' ''https://ex.com/a'' (JStr ''Second'') []"

definition env_baddate :: env where
  "env_baddate = env_of secrets (ok_response (JObj [(''status'', JStr ''ok''), (''articles'', JArr [art_baddate, art_second])]))"

definition future_at :: string where "future_at = ''2033-11-14T22:00:00Z''"

definition art_future :: json where
  "art_future = article future_at ''https://ex.com/f'' (JStr ''Future'') JNull"

definition cand_future :: news where
  "cand_future = candidate 2015618400000000 ''2033-11-14 22:00'' ''https://ex.com/f'' (JStr ''Future'') []"

definition env_future :: env where
  "env_future =
     (env_of secrets (ok_response (JObj [(''status'', JStr ''ok''), (''articles'', JArr [art_future])])))
       \<lparr>strptime := (\<lambda>s. if s = future_at then Some 2015618400000000 else None),
        strftime := (\<lambda>t. ''2033-11-14 22:00'')\<rparr>"

text \<open>
  The blocks and chaining values of HMAC-SHA256 for the key \<^verbatim>\<open>testsecret\<close> and the
  message \<^verbatim>\<open>1700000000000\<close>, newline, \<^verbatim>\<open>testsecret\<close>.
\<close>

definition golden_key :: "byte list" where
  "golden_key = encode_utf8 ''testsecret''"

definition golden_msg :: "byte list" where
  "golden_msg = encode_utf8 (''1700000000000'' @ [CHR 0x0A] @ ''testsecret'')"

definition golden_ipad :: "byte list" where
  "golden_ipad =
     [66, 83, 69, 66, 69, 83, 85, 68, 83, 66, 54, 54, 54, 54, 54, 54, 54, 54,
      54, 54, 54, 54, 54, 54, 54, 54, 54, 54, 54, 54, 54, 54, 54, 54, 54, 54,
      54, 54, 54, 54, 54, 54, 54, 54, 54, 54, 54, 54, 54, 54, 54, 54, 54, 54,
      54, 54, 54, 54, 54, 54, 54, 54, 54, 54]"

definition golden_inner_tail :: "byte list" where
  "golden_inner_tail =
     [49, 55, 48, 48, 48, 48, 48, 48, 48, 48, 48, 48, 48, 10, 116, 101, 115,
      116, 115, 101, 99, 114, 101, 116, 128, 0, 0, 0, 0, 0, 0, 0, 0, 0, 0, 0, 0,
      0, 0, 0, 0, 0, 0, 0, 0, 0, 0, 0, 0, 0, 0, 0, 0, 0, 0, 0, 0, 0, 0, 0, 0, 0,
      2, 192]"

definition golden_opad :: "byte list" where
  "golden_opad =
     [40, 57, 47, 40, 47, 57, 63, 46, 57, 40, 92, 92, 92, 92, 92, 92, 92, 92,
      92, 92, 92, 92, 92, 92, 92, 92, 92, 92, 92, 92, 92, 92, 92, 92, 92, 92,
      92, 92, 92, 92, 92, 92, 92, 92, 92, 92, 92, 92, 92, 92, 92, 92, 92, 92,
      92, 92, 92, 92, 92, 92, 92, 92, 92, 92]"

definition golden_outer_tail :: "byte list" where
  "golden_outer_tail =
     [224, 204, 221, 126, 46, 151, 13, 233, 88, 132, 166, 207, 84, 197, 49, 209,
      3, 35, 166, 42, 203, 36, 216, 60, 230, 226, 19, 166, 251, 174, 141, 247,
      128, 0, 0, 0, 0, 0, 0, 0, 0, 0, 0, 0, 0, 0, 0, 0, 0, 0, 0, 0, 0, 0, 0, 0,
      0, 0, 0, 0, 0, 0, 3, 0]"

definition golden_s1 :: sha_state where
  "golden_s1 = (751815248, 3574121933, 2710761601, 2193932529, 1612747203, 322145898,
                4257509512, 487468646)"

definition golden_s2 :: sha_state where
  "golden_s2 = (3771522430, 781651433, 1485088463, 1422209489, 52667946, 3408189500,
                3873575846, 4222520823)"

definition golden_s3 :: sha_state where
  "golden_s3 = (601997715, 533180271, 2430348915, 4172367086, 48212718, 1869814336,
                2553270024, 3152535468)"

definition golden_s4 :: sha_state where
  "golden_s4 = (2001614792, 648820127, 2315998068, 2528469240, 111661569, 136903633,
                2134141490, 1427424057)"

section \<open>Auxiliary facts\<close>

lemma parse_published_Some:
  "parse_published e v = Some t \<Longrightarrow> \<exists>str. v = JStr str \<and> strptime e str = Some t"
  by (cases v) simp_all

lemma process_article_seen_mono:
  "process_article e a s w = (Inr s', w') \<Longrightarrow> seen_links s \<subseteq> seen_links s'"
  by (auto simp: process_article_def Let_def split: sum.splits option.splits if_splits)

lemma process_article_shape:
  "process_article e a s w = (Inr s', w') \<Longrightarrow>
     all_news s' = all_news s \<or> all_news s' = all_news s @ [last (all_news s')]"
  by (auto simp: process_article_def Let_def split: sum.splits option.splits if_splits)

lemma process_article_appended:
  assumes "process_article e a s w = (Inr s', w')" and "all_news s' = all_news s @ [c]"
  shows "py_get a ''url'' JNull = Inr (url c) \<and> py_hash (url c) \<noteq> None \<and>
         the (py_hash (url c)) \<notin> seen_links s \<and> the (py_hash (url c)) \<in> seen_links s' \<and>
         \<not> sublist ''webp'' (lower (image_str c)) \<and>
         (\<exists>v. py_get a ''publishedAt'' JNull = Inr v \<and> parse_published e v = Some (published_dt c))"
  using assms
  by (auto simp: process_article_def Let_def split: sum.splits option.splits if_splits)

lemma seen_url_dropped:
  assumes "py_get a ''url'' JNull = Inr u" and "py_hash u = Some k" and "k \<in> seen_links s"
  shows "fst (process_article e a s w) = Inr s"
proof -
  obtain kvs where a: "a = JObj kvs"
    using assms(1) by (cases a) simp_all
  show ?thesis
    using assms unfolding a
    by (simp add: process_article_def Let_def split: option.splits)
qed

lemma grows_refl: "grows e s s"
  by (simp add: grows_def)

lemma grows_trans:
  assumes "grows e s s1" and "grows e s1 s2"
  shows "grows e s s2"
proof -
  from assms(1) obtain l1 where l1: "all_news s1 = all_news s @ l1"
      "distinct (map (py_hash \<circ> url) l1)"
      "\<forall>n \<in> set l1. py_hash (url n) \<noteq> None \<and> the (py_hash (url n)) \<notin> seen_links s \<and>
          the (py_hash (url n)) \<in> seen_links s1 \<and> \<not> sublist ''webp'' (lower (image_str n)) \<and>
          (\<exists>str. strptime e str = Some (published_dt n))"
    and sub1: "seen_links s \<subseteq> seen_links s1"
    unfolding grows_def by blast
  from assms(2) obtain l2 where l2: "all_news s2 = all_news s1 @ l2"
      "distinct (map (py_hash \<circ> url) l2)"
      "\<forall>n \<in> set l2. py_hash (url n) \<noteq> None \<and> the (py_hash (url n)) \<notin> seen_links s1 \<and>
          the (py_hash (url n)) \<in> seen_links s2 \<and> \<not> sublist ''webp'' (lower (image_str n)) \<and>
          (\<exists>str. strptime e str = Some (published_dt n))"
    and sub2: "seen_links s1 \<subseteq> seen_links s2"
    unfolding grows_def by blast
  have disj: "(py_hash \<circ> url) ` set l1 \<inter> (py_hash \<circ> url) ` set l2 = {}"
  proof (rule ccontr)
    assume "\<not> ?thesis"
    then obtain n1 n2 where n: "n1 \<in> set l1" "n2 \<in> set l2" "py_hash (url n1) = py_hash (url n2)"
      by auto
    from l1(3) n(1) have "the (py_hash (url n1)) \<in> seen_links s1" by blast
    moreover from l2(3) n(2) have "the (py_hash (url n2)) \<notin> seen_links s1" by blast
    ultimately show False using n(3) by simp
  qed
  have "all_news s2 = all_news s @ (l1 @ l2)"
    using l1(1) l2(1) by simp
  moreover have "distinct (map (py_hash \<circ> url) (l1 @ l2))"
    using l1(2) l2(2) disj by simp
  moreover have "\<forall>n \<in> set (l1 @ l2). py_hash (url n) \<noteq> None \<and>
          the (py_hash (url n)) \<notin> seen_links s \<and>
          the (py_hash (url n)) \<in> seen_links s2 \<and> \<not> sublist ''webp'' (lower (image_str n)) \<and>
          (\<exists>str. strptime e str = Some (published_dt n))"
    using l1(3) l2(3) sub1 sub2 by auto
  ultimately show ?thesis
    unfolding grows_def using sub1 sub2 by blast
qed

lemma process_article_grows:
  assumes "process_article e a s w = (Inr s', w')"
  shows "grows e s s'"
proof -
  have sub: "seen_links s \<subseteq> seen_links s'"
    using assms by (rule process_article_seen_mono)
  from process_article_shape [OF assms] show ?thesis
  proof
    assume "all_news s' = all_news s"
    then show ?thesis using sub by (simp add: grows_def)
  next
    assume app: "all_news s' = all_news s @ [last (all_news s')]"
    from process_article_appended [OF assms app]
    have c: "py_hash (url (last (all_news s'))) \<noteq> None"
      "the (py_hash (url (last (all_news s')))) \<notin> seen_links s"
      "the (py_hash (url (last (all_news s')))) \<in> seen_links s'"
      "\<not> sublist ''webp'' (lower (image_str (last (all_news s'))))"
      "\<exists>v. parse_published e v = Some (published_dt (last (all_news s')))"
      by blast+
    from c(5) have "\<exists>str. strptime e str = Some (published_dt (last (all_news s')))"
      by (blast dest: parse_published_Some)
    with c(1-4) app sub show ?thesis
      unfolding grows_def by (intro conjI exI [of _ "[last (all_news s')]"]) simp_all
  qed
qed

lemma process_articles_grows:
  "process_articles e as s w = (Inr s', w') \<Longrightarrow> grows e s s'"
proof (induction as arbitrary: s w)
  case Nil
  then show ?case by (simp add: grows_refl)
next
  case (Cons a as)
  then obtain s1 w1 where 1: "process_article e a s w = (Inr s1, w1)"
    and 2: "process_articles e as s1 w1 = (Inr s', w')"
    by (auto split: sum.splits prod.splits)
  from process_article_grows [OF 1] Cons.IH [OF 2] show ?case
    by (rule grows_trans)
qed

lemma fetch_keyword_grows:
  "fetch_keyword e cfg k s w = (Inr s', w') \<Longrightarrow> grows e s s'"
  by (auto simp: fetch_keyword_def Let_def grows_refl
           split: sum.splits option.splits if_splits dest: process_articles_grows)

lemma fetch_keywords_grows:
  "fetch_keywords e cfg ks s w = (Inr s', w') \<Longrightarrow> grows e s s'"
proof (induction ks arbitrary: s w)
  case Nil
  then show ?case by (simp add: grows_refl)
next
  case (Cons k ks)
  then obtain s1 w1 where 1: "fetch_keyword e cfg k s w = (Inr s1, w1)"
    and 2: "fetch_keywords e cfg ks s1 w1 = (Inr s', w')"
    by (auto split: sum.splits prod.splits)
  from fetch_keyword_grows [OF 1] Cons.IH [OF 2] show ?case
    by (rule grows_trans)
qed

lemma recent_filter_props:
  "recent_filter e ns w = (rs, w') \<Longrightarrow>
     subseq rs ns \<and> clock w' = clock w + length ns \<and> trace w' = trace w \<and>
     (\<forall>n \<in> set rs. \<exists>k. clock w \<le> k \<and> k < clock w' \<and>
                        utcnow e k - timedelta_days 2 \<le> published_dt n)"
proof (induction ns arbitrary: w rs w')
  case Nil
  then show ?case by simp
next
  case (Cons n ns)
  obtain rest w1 where r: "recent_filter e ns (tick w) = (rest, w1)"
    by (cases "recent_filter e ns (tick w)")
  from Cons.IH [OF r] have ih: "subseq rest ns" "clock w1 = Suc (clock w) + length ns"
      "trace w1 = trace w"
      "\<forall>m \<in> set rest. \<exists>k. Suc (clock w) \<le> k \<and> k < clock w1 \<and>
                        utcnow e k - timedelta_days 2 \<le> published_dt m"
    by (auto simp: tick_def)
  from Cons.prems r have w': "w' = w1"
    and rs: "rs = (if utcnow e (clock w) - timedelta_days 2 \<le> published_dt n then n # rest else rest)"
    by (simp_all add: Let_def)
  have "\<forall>m \<in> set rest. \<exists>k. clock w \<le> k \<and> k < clock w1 \<and>
                        utcnow e k - timedelta_days 2 \<le> published_dt m"
    using ih(4) by (meson Suc_leD)
  moreover have "utcnow e (clock w) - timedelta_days 2 \<le> published_dt n \<Longrightarrow>
          \<exists>k. clock w \<le> k \<and> k < clock w1 \<and> utcnow e k - timedelta_days 2 \<le> published_dt n"
    using ih(2) by (intro exI [of _ "clock w"]) simp
  ultimately show ?case
    using ih(1-3) unfolding w' rs by (auto simp: subseq_Cons')
qed

lemma dropWhile_keeps:
  assumes "\<not> P a"
  shows "\<exists>ps'. dropWhile P (ps @ a # r) = ps' @ a # r"
proof (cases "\<forall>x \<in> set ps. P x")
  case True
  then have "dropWhile P (ps @ a # r) = dropWhile P (a # r)"
    by (simp add: dropWhile_append2)
  with assms show ?thesis by simp
next
  case False
  then obtain x where "x \<in> set ps" "\<not> P x" by blast
  then have "dropWhile P (ps @ a # r) = dropWhile P ps @ a # r"
    by (rule dropWhile_append1)
  then show ?thesis by blast
qed

lemma strip_keeps:
  assumes "\<not> isspace a" and "\<not> isspace d"
  shows "\<exists>ps' ss'. strip (ps @ a # mid @ d # ss) = ps' @ a # mid @ d # ss'"
proof -
  from dropWhile_keeps [of isspace a ps "mid @ d # ss", OF assms(1)] obtain ps'
    where 1: "dropWhile isspace (ps @ a # mid @ d # ss) = ps' @ a # mid @ d # ss"
    by blast
  from dropWhile_keeps [of isspace d "rev ss" "rev mid @ a # rev ps'", OF assms(2)] obtain rs
    where 2: "dropWhile isspace (rev ss @ d # rev mid @ a # rev ps') = rs @ d # rev mid @ a # rev ps'"
    by blast
  have "strip (ps @ a # mid @ d # ss) = ps' @ a # mid @ d # rev rs"
    by (simp add: strip_def 1 2)
  then show ?thesis by blast
qed

lemma map_eq_append3:
  assumes "map f xs = ps @ m @ ss"
  shows "\<exists>ps0 m0 ss0. xs = ps0 @ m0 @ ss0 \<and> map f m0 = m"
proof -
  let ?m0 = "take (length m) (drop (length ps) xs)"
  have "map f ?m0 = take (length m) (drop (length ps) (map f xs))"
    by (simp add: take_map drop_map)
  also have "\<dots> = m"
    by (simp add: assms)
  finally have "map f ?m0 = m" .
  moreover have "xs = take (length ps) xs @ ?m0 @ drop (length m) (drop (length ps) xs)"
    by (simp only: append_take_drop_id)
  ultimately show ?thesis by blast
qed

lemma lower_char_space: "isspace c \<Longrightarrow> lower_char c = c"
  by (auto simp: isspace_def lower_char_def)

lemma lower_char_not_space:
  assumes "lower_char c = CHR ''w'' \<or> lower_char c = CHR ''p''"
  shows "\<not> isspace c"
proof
  assume sp: "isspace c"
  then have "lower_char c = c" by (rule lower_char_space)
  with assms have "c = CHR ''w'' \<or> c = CHR ''p''" by simp
  with sp show False by (auto simp: isspace_def)
qed

lemma map_eq_snoc:
  "map f xs = ys @ [y] \<Longrightarrow> \<exists>xs0 d. xs = xs0 @ [d] \<and> map f xs0 = ys \<and> f d = y"
  by (cases xs rule: rev_cases) auto

lemma map_eq_cons:
  "map f xs = y # ys \<Longrightarrow> \<exists>a r. xs = a # r \<and> f a = y \<and> map f r = ys"
  by (cases xs) auto

lemma sublist_lower_strip:
  assumes sub: "sublist (x # mid @ [y]) (lower img)"
    and nx: "\<And>c. lower_char c = x \<Longrightarrow> \<not> isspace c"
    and ny: "\<And>c. lower_char c = y \<Longrightarrow> \<not> isspace c"
  shows "sublist (x # mid @ [y]) (lower (strip img))"
proof -
  from sub have "\<exists>ps ss. map lower_char img = ps @ (x # mid @ [y]) @ ss"
    by (simp only: sublist_def lower_def)
  then obtain ps ss where "map lower_char img = ps @ (x # mid @ [y]) @ ss"
    by (elim exE)
  from map_eq_append3 [OF this] obtain ps0 m0 ss0
    where img: "img = ps0 @ m0 @ ss0" and m0: "map lower_char m0 = x # mid @ [y]"
    by metis
  from map_eq_cons [OF m0] obtain a r0 where m0a: "m0 = a # r0" and a: "lower_char a = x"
    and r0: "map lower_char r0 = mid @ [y]"
    by metis
  from map_eq_snoc [OF r0] obtain mid0 d where r0d: "r0 = mid0 @ [d]"
    and mid0: "map lower_char mid0 = mid" and d: "lower_char d = y"
    by metis
  from strip_keeps [OF nx [OF a] ny [OF d], of ps0 mid0 ss0] obtain ps' ss'
    where "strip (ps0 @ a # mid0 @ d # ss0) = ps' @ a # mid0 @ d # ss'"
    by metis
  then have "strip img = ps' @ (a # mid0 @ [d]) @ ss'"
    unfolding img m0a r0d by simp
  then have "map lower_char (strip img) = map lower_char ps' @ (x # mid @ [y]) @ map lower_char ss'"
    using a d mid0 by simp
  then show ?thesis
    by (simp only: lower_def sublist_appendI)
qed


lemma webp_survives_strip:
  assumes "sublist ''webp'' (lower img)"
  shows "sublist ''webp'' (lower (strip img))"
proof -
  have w: "''webp'' = CHR ''w'' # ''eb'' @ [CHR ''p'']" by simp
  have nw: "\<And>c. lower_char c = CHR ''w'' \<Longrightarrow> \<not> isspace c"
    by (rule lower_char_not_space) (rule disjI1)
  have np: "\<And>c. lower_char c = CHR ''p'' \<Longrightarrow> \<not> isspace c"
    by (rule lower_char_not_space) (rule disjI2)
  from assms have "sublist (CHR ''w'' # ''eb'' @ [CHR ''p'']) (lower img)"
    by (simp only: w)
  then have "sublist (CHR ''w'' # ''eb'' @ [CHR ''p'']) (lower (strip img))"
    using nw np by (rule sublist_lower_strip)
  then show ?thesis
    by (simp only: w)
qed

lemma webp_image_of:
  assumes "sublist ''webp'' (lower img)"
  shows "sublist ''webp'' (lower (image_of (JStr img)))"
proof -
  have "image_of (JStr img) = strip img" by simp
  with webp_survives_strip [OF assms] show ?thesis by (simp only:)
qed

lemma fetch_news_unfold:
  assumes "fetch_news e cfg w = (Inr selected, w')"
  shows "\<exists>s w1 rs w2. fetch_keywords e cfg KEYWORDS \<lparr>seen_links = {}, all_news = []\<rparr> w = (Inr s, w1) \<and>
           recent_filter e (all_news s) w1 = (rs, w2) \<and>
           w' = emit (Stdout (Msg_recent (length rs))) w2 \<and>
           selected = take NEWS_LIMIT (shuffle e rs)"
  using assms
  by (auto simp: fetch_news_def Let_def split: prod.splits sum.splits)

lemma subseq_distinct:
  assumes "subseq xs ys" and "distinct ys"
  shows "distinct xs"
proof -
  from assms(1) have "xs \<in> set (subseqs ys)" by simp
  then show ?thesis using assms(2) by (rule subseqs_distinctD)
qed

lemma subseq_subset:
  assumes "subseq xs ys"
  shows "set xs \<subseteq> set ys"
proof
  fix x assume "x \<in> set xs"
  with assms show "x \<in> set ys" by (rule list_emb_set [elim_format]) auto
qed

lemma candidates_distinct:
  assumes "fetch_keywords e cfg ks \<lparr>seen_links = {}, all_news = []\<rparr> w = (Inr s, w1)"
  shows "distinct (map (py_hash \<circ> url) (all_news s))"
  using fetch_keywords_grows [OF assms] by (auto simp: grows_def)

subsection \<open>The signature of the golden input, block by block\<close>

lemma hmac_two_blocks:
  assumes "length key \<le> 64"
    and "chunks 64 (sha256_pad (map (\<lambda>b. b XOR 0x36) (key @ replicate (64 - length key) 0) @ msg)) = [b1, b2]"
    and "sha256_compress sha256_H0 b1 = s1"
    and "sha256_compress s1 b2 = s2"
    and "chunks 64 (sha256_pad (map (\<lambda>b. b XOR 0x5c) (key @ replicate (64 - length key) 0) @ digest_bytes s2)) = [b3, b4]"
    and "sha256_compress sha256_H0 b3 = s3"
    and "sha256_compress s3 b4 = s4"
  shows "hmac_sha256 key msg = digest_bytes s4"
  using assms by (simp add: hmac_sha256_def sha256_def Let_def del: sha256_compress.simps digest_bytes.simps)

lemma golden_key_length: "length golden_key \<le> 64"
  by code_simp

lemma golden_inner_blocks:
  "chunks 64 (sha256_pad (map (\<lambda>b. b XOR 0x36) (golden_key @ replicate (64 - length golden_key) 0) @ golden_msg)) =
     [golden_ipad, golden_inner_tail]"
  by code_simp

lemma golden_c1: "sha256_compress sha256_H0 golden_ipad = golden_s1"
  by code_simp

lemma golden_c2: "sha256_compress golden_s1 golden_inner_tail = golden_s2"
  by code_simp

lemma golden_outer_blocks:
  "chunks 64 (sha256_pad (map (\<lambda>b. b XOR 0x5c) (golden_key @ replicate (64 - length golden_key) 0) @ digest_bytes golden_s2)) =
     [golden_opad, golden_outer_tail]"
  by code_simp

lemma golden_c3: "sha256_compress sha256_H0 golden_opad = golden_s3"
  by code_simp

lemma golden_c4: "sha256_compress golden_s3 golden_outer_tail = golden_s4"
  by code_simp

lemma golden_hmac: "hmac_sha256 golden_key golden_msg = digest_bytes golden_s4"
  using golden_key_length golden_inner_blocks golden_c1 golden_c2 golden_outer_blocks golden_c3 golden_c4
  by (rule hmac_two_blocks)

lemma golden_sign:
  "quote_plus (b64encode (digest_bytes golden_s4)) = ''d043yCasNZ%2BKC1N0lrVg%2BAan0gEIKPvRfzRqMlUUwzk%3D''"
  by code_simp

lemma golden_timestamp: "str_int 1700000000000 = ''1700000000000''"
  by code_simp

subsection \<open>Runs of the concrete environment\<close>

lemma shuffle_env_of: "mset (shuffle (env_of v r) xs) = mset xs"
  by (simp add: env_of_def)

lemma news_url0: "news_url cfg0 ''sewing thread'' = url0"
  by code_simp

lemma step_first: "process_article env_dup art_first s0 w0 = (Inr s_first, \<lparr>clock = 1, trace = []\<rparr>)"
  by code_simp

lemma step_webp: "process_article env_dup art_webp2 s0 w0 = (Inr s_webp, \<lparr>clock = 1, trace = []\<rparr>)"
  by code_simp

lemma step_plain:
  "process_article env_dup art_plain s0 w0 =
     (Inr \<lparr>seen_links = {KStr ''https://ex.com/b''}, all_news = [cand_plain]\<rparr>, \<lparr>clock = 1, trace = []\<rparr>)"
  by code_simp

lemma step_null: "process_article env_dup (JObj kvs_null) s0 w0 = (Inr s_null, \<lparr>clock = 1, trace = []\<rparr>)"
  by code_simp

lemma run_dup:
  "fetch_news env_dup cfg0 w0 =
     (Inr [cand_first], \<lparr>clock = 3, trace = fetched_trace 2 @ [Stdout (Msg_recent 1)]\<rparr>)"
  by code_simp

lemma fetched_old:
  "fetch_keywords env_old cfg0 KEYWORDS \<lparr>seen_links = {}, all_news = []\<rparr> w0 =
     (Inr s_old, \<lparr>clock = 5, trace = fetched_trace 5\<rparr>)"
  by code_simp

lemma run_old:
  "fetch_news env_old cfg0 w0 = (Inr [], \<lparr>clock = 10, trace = fetched_trace 5 @ [Stdout (Msg_recent 0)]\<rparr>)"
  by code_simp

lemma fetched_mixed:
  "fetch_keywords env_mixed cfg0 KEYWORDS \<lparr>seen_links = {}, all_news = []\<rparr> w0 =
     (Inr s_mixed, \<lparr>clock = 2, trace = fetched_trace 2\<rparr>)"
  by code_simp

lemma run_mixed:
  "fetch_news env_mixed cfg0 w0 =
     (Inr [cand_first], \<lparr>clock = 4, trace = fetched_trace 2 @ [Stdout (Msg_recent 1)]\<rparr>)"
  by code_simp

lemma config_empty: "load_config env_empty = Inr cfg0"
  by code_simp

lemma run_empty:
  "fetch_news env_empty cfg0 \<lparr>clock = 0, trace = []\<rparr> =
     (Inr [], \<lparr>clock = 0, trace = fetched_trace 0 @ [Stdout (Msg_recent 0)]\<rparr>)"
  by code_simp

lemma webp_example: "sublist ''webp'' (lower '' https://ex.com/B.WebP?x=1 '')"
  by code_simp

lemma image_webp: "py_get art_webp2 ''urlToImage'' JNull = Inr (JStr '' https://ex.com/B.WebP?x=1 '')"
  by code_simp

section \<open>The claims\<close>

subsection \<open>C1\<close>

text \<open>
  Claim C1. The URL returned by \<^verbatim>\<open>sign_url\<close> is the webhook followed by the timestamp
  and by the signature, and the signature is the URL-quoted base64 text of the
  HMAC-SHA256 digest, keyed with the secret, of the timestamp, a newline and the secret.
  At every invocation whose clock reads 1700000000000 ms and whose secret is
  \<^verbatim>\<open>testsecret\<close>, whatever the rest of the environment and of the world, the signature
  is the same text, \<^verbatim>\<open>d043yCasNZ%2BKC1N0lrVg%2BAan0gEIKPvRfzRqMlUUwzk%3D\<close>.
\<close>

theorem sign_url_golden:
  "fst (sign_url e cfg w) =
     DINGTALK_WEBHOOK cfg @ ''&timestamp='' @ str_int (time_ms e (clock w)) @ ''&sign='' @
     quote_plus (b64encode (hmac_sha256 (encode_utf8 (DINGTALK_SECRET cfg))
       (encode_utf8 (str_int (time_ms e (clock w)) @ [CHR 0x0A] @ DINGTALK_SECRET cfg)))) \<and>
   (time_ms e (clock w) = 1700000000000 \<and> DINGTALK_SECRET cfg = ''testsecret'' \<longrightarrow>
      fst (sign_url e cfg w) =
        DINGTALK_WEBHOOK cfg @
        ''&timestamp=1700000000000&sign=d043yCasNZ%2BKC1N0lrVg%2BAan0gEIKPvRfzRqMlUUwzk%3D'')"
proof -
  have general: "fst (sign_url e cfg w) =
     DINGTALK_WEBHOOK cfg @ ''&timestamp='' @ str_int (time_ms e (clock w)) @ ''&sign='' @
     quote_plus (b64encode (hmac_sha256 (encode_utf8 (DINGTALK_SECRET cfg))
       (encode_utf8 (str_int (time_ms e (clock w)) @ [CHR 0x0A] @ DINGTALK_SECRET cfg))))"
    by (simp add: sign_url_def Let_def)
  have sig: "quote_plus (b64encode (hmac_sha256 (encode_utf8 ''testsecret'')
       (encode_utf8 (''1700000000000'' @ [CHR 0x0A] @ ''testsecret'')))) =
     ''d043yCasNZ%2BKC1N0lrVg%2BAan0gEIKPvRfzRqMlUUwzk%3D''"
    using golden_hmac golden_sign by (simp only: golden_key_def golden_msg_def)
  have "fst (sign_url e cfg w) =
        DINGTALK_WEBHOOK cfg @
        ''&timestamp=1700000000000&sign=d043yCasNZ%2BKC1N0lrVg%2BAan0gEIKPvRfzRqMlUUwzk%3D''"
    if "time_ms e (clock w) = 1700000000000" "DINGTALK_SECRET cfg = ''testsecret''"
    unfolding general that golden_timestamp sig by simp
  with general show ?thesis by blast
qed

theorem sign_url_golden_witness:
  "time_ms env_dup (clock w0) = 1700000000000 \<and> DINGTALK_SECRET cfg0 = ''testsecret'' \<and>
   fst (sign_url env_dup cfg0 w0) =
     DINGTALK_WEBHOOK cfg0 @
     ''&timestamp=1700000000000&sign=d043yCasNZ%2BKC1N0lrVg%2BAan0gEIKPvRfzRqMlUUwzk%3D''"
proof -
  have t: "time_ms env_dup (clock w0) = 1700000000000"
    by (simp add: env_dup_def env_of_def)
  have s: "DINGTALK_SECRET cfg0 = ''testsecret''"
    by (simp add: cfg0_def)
  show ?thesis
    by (intro conjI t s sign_url_golden [of env_dup cfg0 w0, THEN conjunct2, THEN mp, OF conjI [OF t s]])
qed

subsection \<open>C2\<close>

text \<open>
  Claim C2, as the code has it. Whenever \<^verbatim>\<open>fetch_news\<close> returns, no two selected
  entries have the same url (neither as values nor under Python's set membership), and
  there are at most \<^verbatim>\<open>NEWS_LIMIT = 3\<close> of them, for every permutation
  \<^verbatim>\<open>random.shuffle\<close> may apply. When an article has been kept as a candidate, every
  later article of the run whose url is the same is dropped by the \<^verbatim>\<open>seen_links\<close>
  test: the loop body returns the state unchanged. A url enters \<^verbatim>\<open>seen_links\<close> only
  after the date tests, so the first-encountered of two articles with one url is not
  always the one retained: when its \<^verbatim>\<open>publishedAt\<close> is missing, unparseable or too
  old, it is skipped and the second is kept, which the counterexample below shows.
\<close>

theorem fetch_news_dedup_and_limit:
  assumes perm: "\<And>xs. mset (shuffle e xs) = mset xs"
    and run: "fetch_news e cfg w = (Inr selected, w')"
  shows "distinct (map url selected) \<and> distinct (map (py_hash \<circ> url) selected) \<and>
         length selected \<le> NEWS_LIMIT \<and> NEWS_LIMIT = 3 \<and>
         (\<forall>a1 s v s1 v1 c a2 u2 s2 v2.
            process_article e a1 s v = (Inr s1, v1) \<and> all_news s1 = all_news s @ [c] \<and>
            seen_links s1 \<subseteq> seen_links s2 \<and> py_get a2 ''url'' JNull = Inr u2 \<and>
            py_hash u2 = py_hash (url c) \<longrightarrow>
            fst (process_article e a2 s2 v2) = Inr s2)"
proof -
  from fetch_news_unfold [OF run] obtain s w1 rs w2
    where fk: "fetch_keywords e cfg KEYWORDS \<lparr>seen_links = {}, all_news = []\<rparr> w = (Inr s, w1)"
      and rf: "recent_filter e (all_news s) w1 = (rs, w2)"
      and sel: "selected = take NEWS_LIMIT (shuffle e rs)"
    by metis
  have d0: "distinct (map (py_hash \<circ> url) (all_news s))"
    using fk by (rule candidates_distinct)
  have "subseq rs (all_news s)"
    using recent_filter_props [OF rf] by simp
  then have "subseq (map (py_hash \<circ> url) rs) (map (py_hash \<circ> url) (all_news s))"
    by (rule subseq_map)
  then have d1: "distinct (map (py_hash \<circ> url) rs)"
    using d0 by (rule subseq_distinct)
  have "mset (map (py_hash \<circ> url) (shuffle e rs)) = mset (map (py_hash \<circ> url) rs)"
    by (simp add: perm)
  with d1 have "distinct (map (py_hash \<circ> url) (shuffle e rs))"
    by (metis mset_eq_imp_distinct_iff)
  then have d2: "distinct (map (py_hash \<circ> url) selected)"
    unfolding sel by (simp add: take_map [symmetric] del: map_map)
  then have "distinct (map py_hash (map url selected))"
    by simp
  then have d3: "distinct (map url selected)"
    by (simp only: distinct_map)
  have len: "length selected \<le> NEWS_LIMIT"
    unfolding sel by simp
  have first: "fst (process_article e a2 s2 v2) = Inr s2"
    if h: "process_article e a1 s v = (Inr s1, v1)" "all_news s1 = all_news s @ [c]"
      "seen_links s1 \<subseteq> seen_links s2" "py_get a2 ''url'' JNull = Inr u2"
      "py_hash u2 = py_hash (url c)"
    for a1 s v s1 v1 c a2 u2 s2 v2
  proof -
    from process_article_appended [OF h(1,2)]
    have k: "py_hash (url c) \<noteq> None" "the (py_hash (url c)) \<in> seen_links s1"
      by blast+
    then obtain k where kk: "py_hash (url c) = Some k" by auto
    with k(2) h(3) have "k \<in> seen_links s2" by auto
    moreover have "py_hash u2 = Some k" using h(5) kk by simp
    ultimately show ?thesis using h(4) seen_url_dropped by blast
  qed
  have first': "\<forall>a1 s v s1 v1 c a2 u2 s2 v2.
            process_article e a1 s v = (Inr s1, v1) \<and> all_news s1 = all_news s @ [c] \<and>
            seen_links s1 \<subseteq> seen_links s2 \<and> py_get a2 ''url'' JNull = Inr u2 \<and>
            py_hash u2 = py_hash (url c) \<longrightarrow>
            fst (process_article e a2 s2 v2) = Inr s2"
    by (intro allI impI) (elim conjE, rule first)
  show ?thesis
    by (intro conjI d3 d2 len first' NEWS_LIMIT_def)
qed

theorem fetch_news_dedup_and_limit_witness:
  "(\<forall>xs. mset (shuffle env_dup xs) = mset xs) \<and>
   fetch_news env_dup cfg0 w0 =
     (Inr [cand_first], \<lparr>clock = 3, trace = fetched_trace 2 @ [Stdout (Msg_recent 1)]\<rparr>) \<and>
   distinct (map url [cand_first]) \<and> distinct (map (py_hash \<circ> url) [cand_first]) \<and>
   length [cand_first] \<le> NEWS_LIMIT \<and>
   process_article env_dup art_first s0 w0 = (Inr s_first, \<lparr>clock = 1, trace = []\<rparr>) \<and>
   all_news s_first = all_news s0 @ [cand_first] \<and>
   py_get art_second ''url'' JNull = Inr (JStr ''https://ex.com/a'') \<and>
   fst (process_article env_dup art_second s_first \<lparr>clock = 1, trace = []\<rparr>) = Inr s_first"
proof -
  have perm: "mset (shuffle env_dup xs) = mset xs" for xs
    unfolding env_dup_def by (rule shuffle_env_of)
  note inst = fetch_news_dedup_and_limit [of env_dup cfg0 w0 "[cand_first]", OF perm run_dup]
  have app: "all_news s_first = all_news s0 @ [cand_first]"
    by (simp add: s_first_def s0_def)
  have u2: "py_get art_second ''url'' JNull = Inr (JStr ''https://ex.com/a'')"
    by code_simp
  have same: "py_hash (JStr ''https://ex.com/a'') = py_hash (url cand_first)"
    by (simp add: cand_first_def candidate_def)
  note later = inst [THEN conjunct2, THEN conjunct2, THEN conjunct2, THEN conjunct2, rule_format,
      of art_first s0 w0 s_first "\<lparr>clock = 1, trace = []\<rparr>" cand_first s_first art_second
         "JStr ''https://ex.com/a''" "\<lparr>clock = 1, trace = []\<rparr>"]
  have dropped: "fst (process_article env_dup art_second s_first \<lparr>clock = 1, trace = []\<rparr>) = Inr s_first"
    by (rule later) (intro conjI step_first app subset_refl u2 same)
  show ?thesis
    by (intro conjI allI perm run_dup inst [THEN conjunct1] inst [THEN conjunct2, THEN conjunct1]
          inst [THEN conjunct2, THEN conjunct2, THEN conjunct1] step_first app u2 dropped)
qed

theorem first_not_retained_counterexample:
  "py_get art_baddate ''url'' JNull = Inr (JStr ''https://ex.com/a'') \<and>
   py_get art_second ''url'' JNull = Inr (JStr ''https://ex.com/a'') \<and>
   py_get art_baddate ''title'' (JStr []) = Inr (JStr ''First'') \<and>
   py_get art_second ''title'' (JStr []) = Inr (JStr ''Second'') \<and>
   process_article env_baddate art_baddate s0 w0 = (Inr s0, w0) \<and>
   process_articles env_baddate [art_baddate, art_second] s0 w0 =
     (Inr \<lparr>seen_links = {KStr ''https://ex.com/a''}, all_news = [cand_second]\<rparr>,
      \<lparr>clock = 1, trace = []\<rparr>) \<and>
   fetch_news env_baddate cfg0 w0 =
     (Inr [cand_second], \<lparr>clock = 2, trace = fetched_trace 2 @ [Stdout (Msg_recent 1)]\<rparr>) \<and>
   title cand_second = JStr ''Second''"
  by code_simp

subsection \<open>C3\<close>

text \<open>
  Claim C3, as the code has it. Every selected entry is one of the fetched candidates
  and its \<^verbatim>\<open>published_dt\<close> is not older than two days at a reading of the clock made
  by the selection stage (the comprehension reads \<^verbatim>\<open>datetime.utcnow()\<close> once per
  candidate). If every candidate is older than two days at every such reading, as a
  batch published ten days ago is, the selected list is empty although the candidates
  passed the 360-day test. Both tests bound the timestamp from below only: an article
  dated in the future is selected, which the counterexample below shows, so a selected
  timestamp need not lie within the last two days.
\<close>

theorem selected_within_two_days:
  assumes perm: "\<And>xs. mset (shuffle e xs) = mset xs"
    and fetched: "fetch_keywords e cfg KEYWORDS \<lparr>seen_links = {}, all_news = []\<rparr> w = (Inr s, w1)"
    and run: "fetch_news e cfg w = (Inr selected, w')"
  shows "(\<forall>n \<in> set selected. n \<in> set (all_news s) \<and>
            (\<exists>k. clock w1 \<le> k \<and> k < clock w' \<and>
                 utcnow e k - timedelta_days 2 \<le> published_dt n)) \<and>
         ((\<forall>n \<in> set (all_news s). \<forall>k. clock w1 \<le> k \<and> k < clock w' \<longrightarrow>
              published_dt n < utcnow e k - timedelta_days 2) \<longrightarrow>
            fetch_news e cfg w = (Inr [], w'))"
proof -
  from fetch_news_unfold [OF run] fetched obtain rs w2
    where rf: "recent_filter e (all_news s) w1 = (rs, w2)"
      and w': "w' = emit (Stdout (Msg_recent (length rs))) w2"
      and sel: "selected = take NEWS_LIMIT (shuffle e rs)"
    by auto
  from recent_filter_props [OF rf]
  have sub: "subseq rs (all_news s)"
    and recent: "\<forall>n \<in> set rs. \<exists>k. clock w1 \<le> k \<and> k < clock w2 \<and>
                   utcnow e k - timedelta_days 2 \<le> published_dt n"
    by auto
  have cw: "clock w' = clock w2"
    unfolding w' by (simp add: emit_def)
  have "set (shuffle e rs) = set rs"
    using perm by (rule mset_eq_setD)
  then have in_rs: "set selected \<subseteq> set rs"
    unfolding sel using set_take_subset by fastforce
  have in_all: "set rs \<subseteq> set (all_news s)"
    using sub by (rule subseq_subset)
  have a: "\<forall>n \<in> set selected. n \<in> set (all_news s) \<and>
            (\<exists>k. clock w1 \<le> k \<and> k < clock w' \<and>
                 utcnow e k - timedelta_days 2 \<le> published_dt n)"
    using in_rs in_all recent unfolding cw by blast
  have b: "selected = []"
    if old: "\<forall>n \<in> set (all_news s). \<forall>k. clock w1 \<le> k \<and> k < clock w' \<longrightarrow>
              published_dt n < utcnow e k - timedelta_days 2"
  proof (rule ccontr)
    assume "selected \<noteq> []"
    then obtain n where n: "n \<in> set selected" by (cases selected) auto
    with a obtain k where "n \<in> set (all_news s)" "clock w1 \<le> k" "k < clock w'"
      "utcnow e k - timedelta_days 2 \<le> published_dt n"
      by blast
    with old show False by fastforce
  qed
  from b run have "fetch_news e cfg w = (Inr [], w')"
    if "\<forall>n \<in> set (all_news s). \<forall>k. clock w1 \<le> k \<and> k < clock w' \<longrightarrow>
              published_dt n < utcnow e k - timedelta_days 2"
    using that by simp
  with a show ?thesis by blast
qed

theorem selected_within_two_days_witness:
  "(\<forall>xs. mset (shuffle env_mixed xs) = mset xs) \<and>
   fetch_keywords env_mixed cfg0 KEYWORDS \<lparr>seen_links = {}, all_news = []\<rparr> w0 =
     (Inr s_mixed, \<lparr>clock = 2, trace = fetched_trace 2\<rparr>) \<and>
   fetch_news env_mixed cfg0 w0 =
     (Inr [cand_first], \<lparr>clock = 4, trace = fetched_trace 2 @ [Stdout (Msg_recent 1)]\<rparr>) \<and>
   cand_first \<in> set (all_news s_mixed) \<and>
   (\<exists>k. clock \<lparr>clock = 2, trace = fetched_trace 2\<rparr> \<le> k \<and>
        k < clock \<lparr>clock = 4, trace = fetched_trace 2 @ [Stdout (Msg_recent 1)]\<rparr> \<and>
        utcnow env_mixed k - timedelta_days 2 \<le> published_dt cand_first) \<and>
   (\<forall>xs. mset (shuffle env_old xs) = mset xs) \<and>
   fetch_keywords env_old cfg0 KEYWORDS \<lparr>seen_links = {}, all_news = []\<rparr> w0 =
     (Inr s_old, \<lparr>clock = 5, trace = fetched_trace 5\<rparr>) \<and>
   map published_dt (all_news s_old) = replicate 5 1699135200000000 \<and>
   utcnow env_old 4 - timedelta_days DAYS_FILTER \<le> 1699135200000000 \<and>
   (\<forall>k. 1699135200000000 < utcnow env_old k - timedelta_days 2) \<and>
   fetch_news env_old cfg0 w0 =
     (Inr [], \<lparr>clock = 10, trace = fetched_trace 5 @ [Stdout (Msg_recent 0)]\<rparr>)"
proof -
  have perm_mixed: "mset (shuffle env_mixed xs) = mset xs" for xs
    unfolding env_mixed_def by (rule shuffle_env_of)
  have perm_old: "mset (shuffle env_old xs) = mset xs" for xs
    unfolding env_old_def by (rule shuffle_env_of)
  note mixed = selected_within_two_days [OF perm_mixed fetched_mixed run_mixed, THEN conjunct1,
      THEN bspec, of cand_first]
  note old = selected_within_two_days [OF perm_old fetched_old run_old, THEN conjunct2, THEN mp]
  have sel: "cand_first \<in> set [cand_first]"
    by simp
  have dts: "map published_dt (all_news s_old) = replicate 5 1699135200000000"
    by (simp add: s_old_def cand_old_def candidate_def numeral_eq_Suc)
  have in360: "utcnow env_old 4 - timedelta_days DAYS_FILTER \<le> 1699135200000000"
    by (simp add: env_old_def env_of_def timedelta_days_def DAYS_FILTER_def)
  have out2: "1699135200000000 < utcnow env_old k - timedelta_days 2" for k
    by (simp add: env_old_def env_of_def timedelta_days_def)
  have "published_dt n = 1699135200000000" if "n \<in> set (all_news s_old)" for n
  proof -
    from that have "published_dt n \<in> set (map published_dt (all_news s_old))" by simp
    then show ?thesis unfolding dts by simp
  qed
  then have all_old: "\<forall>n \<in> set (all_news s_old). \<forall>k.
      clock \<lparr>clock = 5, trace = fetched_trace 5\<rparr> \<le> k \<and>
      k < clock \<lparr>clock = 10, trace = fetched_trace 5 @ [Stdout (Msg_recent 0)]\<rparr> \<longrightarrow>
      published_dt n < utcnow env_old k - timedelta_days 2"
    using out2 by simp
  show ?thesis
    by (intro conjI allI perm_mixed fetched_mixed run_mixed mixed [OF sel, THEN conjunct1]
          mixed [OF sel, THEN conjunct2] perm_old fetched_old dts in360 out2 old [OF all_old])
qed

theorem future_article_selected_counterexample:
  "fetch_news env_future cfg0 w0 =
     (Inr [cand_future], \<lparr>clock = 2, trace = fetched_trace 1 @ [Stdout (Msg_recent 1)]\<rparr>) \<and>
   published_dt cand_future = 2015618400000000 \<and>
   utcnow env_future 0 = 1700000000000000 \<and>
   utcnow env_future 1 = 1700000000000001 \<and>
   utcnow env_future 1 + timedelta_days 3650 < published_dt cand_future"
  by code_simp

subsection \<open>C4\<close>

text \<open>
  Claim C4. An article whose \<^verbatim>\<open>urlToImage\<close> is a string containing \<^verbatim>\<open>webp\<close> in any
  letter case, anywhere, is never appended to \<^verbatim>\<open>all_news\<close>, whatever its other fields
  and whatever the state and the clock.
\<close>

theorem webp_image_excluded:
  assumes "py_get a ''urlToImage'' JNull = Inr (JStr img)"
    and "sublist ''webp'' (lower img)"
    and "process_article e a s w = (Inr s', w')"
  shows "all_news s' = all_news s"
proof -
  have "sublist ''webp'' (lower (image_of (JStr img)))"
    using assms(2) by (rule webp_image_of)
  then show ?thesis
    using assms(1,3)
    by (auto simp: process_article_def Let_def simp del: image_of.simps
             split: sum.splits option.splits if_splits)
qed

theorem webp_image_excluded_witness:
  "py_get art_webp2 ''urlToImage'' JNull = Inr (JStr '' https://ex.com/B.WebP?x=1 '') \<and>
   sublist ''webp'' (lower '' https://ex.com/B.WebP?x=1 '') \<and>
   process_article env_dup art_webp2 s0 w0 = (Inr s_webp, \<lparr>clock = 1, trace = []\<rparr>) \<and>
   all_news s_webp = all_news s0"
  by (intro conjI image_webp webp_example step_webp
        webp_image_excluded [OF image_webp webp_example step_webp])

subsection \<open>C5\<close>

text \<open>
  Claim C5. If one of \<^verbatim>\<open>NEWSAPI_KEY\<close>, \<^verbatim>\<open>DINGTALK_WEBHOOK\<close>, \<^verbatim>\<open>DINGTALK_SECRET\<close> is
  missing from the environment or empty, the script stops with \<^verbatim>\<open>ValueError\<close> and its
  trace is empty: nothing was requested, posted or printed, and the clock was not read.
\<close>

theorem missing_secret_aborts:
  assumes "getenv e ''NEWSAPI_KEY'' \<in> {None, Some []} \<or>
           getenv e ''DINGTALK_WEBHOOK'' \<in> {None, Some []} \<or>
           getenv e ''DINGTALK_SECRET'' \<in> {None, Some []}"
  shows "main e = (Inl ValueError, \<lparr>clock = 0, trace = []\<rparr>)"
proof -
  have "load_config e = Inl ValueError"
    using assms by (auto simp: load_config_def split: option.splits)
  then show ?thesis by (simp add: main_def)
qed

theorem missing_secret_aborts_witness:
  "getenv (env_of (secrets(''DINGTALK_SECRET'' := Some [])) (ok_response JNull)) ''DINGTALK_SECRET'' = Some [] \<and>
   main (env_of (secrets(''DINGTALK_SECRET'' := Some [])) (ok_response JNull)) =
     (Inl ValueError, \<lparr>clock = 0, trace = []\<rparr>)"
  using missing_secret_aborts [of "env_of (secrets(''DINGTALK_SECRET'' := Some [])) (ok_response JNull)"]
  by (simp add: env_of_def)

subsection \<open>C6\<close>

text \<open>
  Claim C6, as the code has it. The test is \<^verbatim>\<open>response.status_code != 200\<close>: a keyword
  whose response has any status other than 200 is logged and skipped, with one request
  and no error, and the loop goes on with the next keyword in the same state; the
  returned articles are processed exactly when the status is 200. A 2xx status other
  than 200 is skipped as well, which the counterexample below shows for 201.
\<close>

theorem non_200_keyword_skipped:
  assumes "http_get e (news_url cfg keyword) = Inr resp"
  shows "(status_code resp \<noteq> 200 \<longrightarrow>
            fetch_keyword e cfg keyword s w =
              (Inr s, emit (Stdout (Msg_fetch_failed (resp_text resp)))
                        (emit (HttpGet (news_url cfg keyword)) (emit (Stdout (Msg_fetching keyword)) w))) \<and>
            fetch_keywords e cfg (keyword # ks) s w =
              fetch_keywords e cfg ks s
                (emit (Stdout (Msg_fetch_failed (resp_text resp)))
                   (emit (HttpGet (news_url cfg keyword)) (emit (Stdout (Msg_fetching keyword)) w)))) \<and>
         (status_code resp = 200 \<and> json_body resp = Some (JObj kvs) \<and>
          map_of kvs ''articles'' = Some (JArr items) \<longrightarrow>
            fetch_keyword e cfg keyword s w =
              process_articles e items s
                (emit (Stdout (Msg_fetched (length items) DAYS_FILTER))
                   (emit (HttpGet (news_url cfg keyword)) (emit (Stdout (Msg_fetching keyword)) w))))"
  using assms by (simp add: fetch_keyword_def)

theorem non_200_keyword_skipped_witness:
  "http_get (env_of secrets resp_429) (news_url cfg0 ''sewing thread'') = Inr resp_429 \<and>
   status_code resp_429 \<noteq> 200 \<and>
   fetch_keyword (env_of secrets resp_429) cfg0 ''sewing thread'' s0 w0 =
     (Inr s0, emit (Stdout (Msg_fetch_failed (resp_text resp_429)))
                (emit (HttpGet (news_url cfg0 ''sewing thread''))
                   (emit (Stdout (Msg_fetching ''sewing thread'')) w0))) \<and>
   http_get env_dup (news_url cfg0 ''sewing thread'') =
     Inr (ok_response (JObj [(''status'', JStr ''ok''), (''articles'', JArr [art_first, art_second])])) \<and>
   fetch_keyword env_dup cfg0 ''sewing thread'' s0 w0 =
     process_articles env_dup [art_first, art_second] s0
       (emit (Stdout (Msg_fetched (length [art_first, art_second]) DAYS_FILTER))
          (emit (HttpGet (news_url cfg0 ''sewing thread''))
             (emit (Stdout (Msg_fetching ''sewing thread'')) w0)))"
proof -
  have g1: "http_get (env_of secrets resp_429) (news_url cfg0 ''sewing thread'') = Inr resp_429"
    by (simp add: env_of_def)
  have ne: "status_code resp_429 \<noteq> 200"
    by (simp add: resp_429_def)
  have g2: "http_get env_dup (news_url cfg0 ''sewing thread'') =
     Inr (ok_response (JObj [(''status'', JStr ''ok''), (''articles'', JArr [art_first, art_second])]))"
    by (simp add: env_dup_def env_of_def)
  have ok: "status_code (ok_response (JObj [(''status'', JStr ''ok''), (''articles'', JArr [art_first, art_second])])) = 200 \<and>
            json_body (ok_response (JObj [(''status'', JStr ''ok''), (''articles'', JArr [art_first, art_second])])) =
              Some (JObj [(''status'', JStr ''ok''), (''articles'', JArr [art_first, art_second])]) \<and>
            map_of [(''status'', JStr ''ok''), (''articles'', JArr [art_first, art_second])] ''articles'' =
              Some (JArr [art_first, art_second])"
    by (simp add: ok_response_def)
  note skipped = non_200_keyword_skipped [OF g1, of s0 w0 "[]" "[]" "[]", THEN conjunct1, THEN mp, OF ne,
      THEN conjunct1]
  note processed = non_200_keyword_skipped [OF g2, of s0 w0 "[]"
      "[(''status'', JStr ''ok''), (''articles'', JArr [art_first, art_second])]"
      "[art_first, art_second]", THEN conjunct2, THEN mp, OF ok]
  show ?thesis
    by (intro conjI g1 ne skipped g2 processed)
qed

theorem status_2xx_not_processed_counterexample:
  "200 \<le> status_code resp_201 \<and> status_code resp_201 < 300 \<and>
   json_body resp_201 = Some (JObj [(''status'', JStr ''ok''), (''articles'', JArr [art_first])]) \<and>
   fetch_keyword (env_of secrets resp_201) cfg0 ''sewing thread'' s0 w0 =
     (Inr s0, \<lparr>clock = 0, trace = [Stdout (Msg_fetching ''sewing thread''), HttpGet url0,
                                    Stdout (Msg_fetch_failed ''Created'')]\<rparr>) \<and>
   process_articles (env_of secrets resp_201) [art_first] s0 \<lparr>clock = 0, trace = fetched_trace 1\<rparr> =
     (Inr s_first, \<lparr>clock = 1, trace = fetched_trace 1\<rparr>) \<and>
   all_news s_first \<noteq> all_news s0"
  by code_simp

subsection \<open>C7\<close>

text \<open>
  Claim C7. On an empty list \<^verbatim>\<open>send_to_dingtalk\<close> prints its notice and returns
  normally: the clock is not read (no signed URL is computed) and the trace gains no
  POST. When \<^verbatim>\<open>fetch_news\<close> selects nothing, the script ends normally after the summary
  line and that notice.
\<close>

theorem empty_selection_skips_send:
  "send_to_dingtalk e cfg [] w = (Inr (), w\<lparr>trace := trace w @ [Stdout Msg_no_news]\<rparr>) \<and>
   (load_config e = Inr cfg \<and> fetch_news e cfg \<lparr>clock = 0, trace = []\<rparr> = (Inr [], w1) \<longrightarrow>
      main e = (Inr (), w1\<lparr>trace := trace w1 @ [Stdout (Msg_total 0), Stdout Msg_no_news]\<rparr>))"
  by (simp add: send_to_dingtalk_def emit_def main_def enumerate1_def)

theorem empty_selection_skips_send_witness:
  "load_config env_empty = Inr cfg0 \<and>
   fetch_news env_empty cfg0 \<lparr>clock = 0, trace = []\<rparr> =
     (Inr [], \<lparr>clock = 0, trace = fetched_trace 0 @ [Stdout (Msg_recent 0)]\<rparr>) \<and>
   main env_empty =
     (Inr (), \<lparr>clock = 0, trace = fetched_trace 0 @ [Stdout (Msg_recent 0)]\<rparr>
              \<lparr>trace := trace \<lparr>clock = 0, trace = fetched_trace 0 @ [Stdout (Msg_recent 0)]\<rparr> @
                         [Stdout (Msg_total 0), Stdout Msg_no_news]\<rparr>)"
  by (intro conjI config_empty run_empty
        empty_selection_skips_send [of env_empty cfg0 w0, THEN conjunct2, THEN mp, OF conjI [OF config_empty run_empty]])

subsection \<open>C8\<close>

text \<open>
  Claim C8. An article that reaches the \<^verbatim>\<open>webp\<close> test and is rejected there has already
  put its url into \<^verbatim>\<open>seen_links\<close>: the state it leaves differs from the one it found by
  that url only. Every later article with the same url is then dropped by the
  \<^verbatim>\<open>seen_links\<close> test, whatever its image.
\<close>

theorem webp_rejection_blocks_url:
  assumes run: "process_article e a s w = (Inr s1, w1)"
    and pub: "py_get a ''publishedAt'' JNull = Inr p" "truthy p" "parse_published e p = Some t"
      "\<not> t < utcnow e (clock w) - timedelta_days DAYS_FILTER"
    and url: "py_get a ''url'' JNull = Inr u" "truthy u" "py_hash u = Some k" "k \<notin> seen_links s"
    and img: "py_get a ''urlToImage'' JNull = Inr (JStr i)" "sublist ''webp'' (lower i)"
  shows "s1 = s\<lparr>seen_links := insert k (seen_links s)\<rparr> \<and>
         (\<forall>a2 u2 s2 w2. seen_links s1 \<subseteq> seen_links s2 \<and> py_get a2 ''url'' JNull = Inr u2 \<and>
              py_hash u2 = Some k \<longrightarrow> fst (process_article e a2 s2 w2) = Inr s2)"
proof -
  have "sublist ''webp'' (lower (image_of (JStr i)))"
    using img(2) by (rule webp_image_of)
  then have s1: "s1 = s\<lparr>seen_links := insert k (seen_links s)\<rparr>"
    using run pub url img(1)
    by (auto simp: process_article_def Let_def simp del: image_of.simps
             split: sum.splits option.splits if_splits)
  have "fst (process_article e a2 s2 w2) = Inr s2"
    if "seen_links s1 \<subseteq> seen_links s2" "py_get a2 ''url'' JNull = Inr u2" "py_hash u2 = Some k"
    for a2 u2 s2 w2
  proof -
    from that(1) s1 have "k \<in> seen_links s2" by auto
    with that(2,3) show ?thesis by (rule seen_url_dropped)
  qed
  with s1 show ?thesis by blast
qed

theorem webp_rejection_blocks_url_witness:
  "process_article env_dup art_webp2 s0 w0 = (Inr s_webp, \<lparr>clock = 1, trace = []\<rparr>) \<and>
   py_get art_webp2 ''urlToImage'' JNull = Inr (JStr '' https://ex.com/B.WebP?x=1 '') \<and>
   sublist ''webp'' (lower '' https://ex.com/B.WebP?x=1 '') \<and>
   s_webp = s0\<lparr>seen_links := insert (KStr ''https://ex.com/b'') (seen_links s0)\<rparr> \<and>
   py_get art_plain ''url'' JNull = Inr (JStr ''https://ex.com/b'') \<and>
   py_get art_plain ''urlToImage'' JNull = Inr JNull \<and>
   process_article env_dup art_plain s0 w0 =
     (Inr \<lparr>seen_links = {KStr ''https://ex.com/b''}, all_news = [cand_plain]\<rparr>, \<lparr>clock = 1, trace = []\<rparr>) \<and>
   fst (process_article env_dup art_plain s_webp \<lparr>clock = 1, trace = []\<rparr>) = Inr s_webp"
proof -
  have pub: "py_get art_webp2 ''publishedAt'' JNull = Inr (JStr recent_at)"
    "truthy (JStr recent_at)"
    "parse_published env_dup (JStr recent_at) = Some 1699999200000000"
    "\<not> 1699999200000000 < utcnow env_dup (clock w0) - timedelta_days DAYS_FILTER"
    by code_simp+
  have u: "py_get art_webp2 ''url'' JNull = Inr (JStr ''https://ex.com/b'')"
    "truthy (JStr ''https://ex.com/b'')"
    "py_hash (JStr ''https://ex.com/b'') = Some (KStr ''https://ex.com/b'')"
    "KStr ''https://ex.com/b'' \<notin> seen_links s0"
    by code_simp+
  note inst = webp_rejection_blocks_url [OF step_webp pub u image_webp webp_example]
  have u2: "py_get art_plain ''url'' JNull = Inr (JStr ''https://ex.com/b'')"
    by code_simp
  have i2: "py_get art_plain ''urlToImage'' JNull = Inr JNull"
    by code_simp
  have dropped: "fst (process_article env_dup art_plain s_webp \<lparr>clock = 1, trace = []\<rparr>) = Inr s_webp"
    by (rule inst [THEN conjunct2, rule_format]) (rule conjI [OF subset_refl conjI [OF u2 u(3)]])
  show ?thesis
    by (intro conjI step_webp image_webp webp_example inst [THEN conjunct1] u2 i2 step_plain dropped)
qed

subsection \<open>C9\<close>

text \<open>
  Claim C9. The title of a candidate is the article's \<^verbatim>\<open>title\<close> value when the key is
  present, also when that value is null, and the empty string only when the key is
  absent; the description is the empty string when the key is absent or its value is
  falsy, null included.
\<close>

theorem title_default_only_when_absent:
  assumes "process_article e (JObj kvs) s w = (Inr s', w')"
    and "all_news s' = all_news s @ [c]"
  shows "title c = (case map_of kvs ''title'' of None \<Rightarrow> JStr [] | Some v \<Rightarrow> v) \<and>
         description c = (case map_of kvs ''description'' of
                            None \<Rightarrow> JStr []
                          | Some v \<Rightarrow> if truthy v then v else JStr []) \<and>
         (map_of kvs ''title'' = Some JNull \<longrightarrow> title c = JNull) \<and>
         (map_of kvs ''description'' = Some JNull \<longrightarrow> description c = JStr [])"
  using assms
  by (auto simp: process_article_def Let_def split: sum.splits option.splits if_splits)

theorem title_default_only_when_absent_witness:
  "process_article env_dup (JObj kvs_null) s0 w0 = (Inr s_null, \<lparr>clock = 1, trace = []\<rparr>) \<and>
   all_news s_null = all_news s0 @ [cand_null] \<and>
   map_of kvs_null ''title'' = Some JNull \<and> title cand_null = JNull \<and>
   map_of kvs_null ''description'' = Some JNull \<and> description cand_null = JStr []"
proof -
  have app: "all_news s_null = all_news s0 @ [cand_null]"
    by (simp add: s_null_def s0_def)
  have t: "map_of kvs_null ''title'' = Some JNull"
    by (simp add: kvs_null_def)
  have d: "map_of kvs_null ''description'' = Some JNull"
    by (simp add: kvs_null_def)
  note inst = title_default_only_when_absent [OF step_null app]
  show ?thesis
    by (intro conjI step_null app t d
          inst [THEN conjunct2, THEN conjunct2, THEN conjunct1, THEN mp, OF t]
          inst [THEN conjunct2, THEN conjunct2, THEN conjunct2, THEN mp, OF d])
qed

subsection \<open>C10\<close>

text \<open>
  Claim C10. A response with status 200 whose body is a JSON object without the key
  \<^verbatim>\<open>articles\<close> is read as an empty list of articles: the keyword leaves the state as it
  was, reports zero articles, raises nothing, and the loop goes on with the next keyword.
\<close>

theorem missing_articles_field:
  assumes "http_get e (news_url cfg keyword) = Inr resp"
    and "status_code resp = 200"
    and "json_body resp = Some (JObj kvs)"
    and "map_of kvs ''articles'' = None"
  shows "fetch_keyword e cfg keyword s w =
           (Inr s, emit (Stdout (Msg_fetched 0 DAYS_FILTER))
                     (emit (HttpGet (news_url cfg keyword)) (emit (Stdout (Msg_fetching keyword)) w))) \<and>
         fetch_keywords e cfg (keyword # ks) s w =
           fetch_keywords e cfg ks s
             (emit (Stdout (Msg_fetched 0 DAYS_FILTER))
                (emit (HttpGet (news_url cfg keyword)) (emit (Stdout (Msg_fetching keyword)) w)))"
  using assms by (simp add: fetch_keyword_def)

theorem missing_articles_field_witness:
  "http_get env_nofield (news_url cfg0 ''sewing thread'') = Inr (ok_response (JObj [(''status'', JStr ''ok'')])) \<and>
   status_code (ok_response (JObj [(''status'', JStr ''ok'')])) = 200 \<and>
   json_body (ok_response (JObj [(''status'', JStr ''ok'')])) = Some (JObj [(''status'', JStr ''ok'')]) \<and>
   map_of [(''status'', JStr ''ok'')] ''articles'' = None \<and>
   fetch_keyword env_nofield cfg0 ''sewing thread'' s0 w0 =
     (Inr s0, emit (Stdout (Msg_fetched 0 DAYS_FILTER))
                (emit (HttpGet (news_url cfg0 ''sewing thread''))
                   (emit (Stdout (Msg_fetching ''sewing thread'')) w0)))"
proof -
  have g: "http_get env_nofield (news_url cfg0 ''sewing thread'') = Inr (ok_response (JObj [(''status'', JStr ''ok'')]))"
    by (simp add: env_nofield_def env_of_def)
  have st: "status_code (ok_response (JObj [(''status'', JStr ''ok'')])) = 200"
    by (simp add: ok_response_def)
  have jb: "json_body (ok_response (JObj [(''status'', JStr ''ok'')])) = Some (JObj [(''status'', JStr ''ok'')])"
    by (simp add: ok_response_def)
  have mo: "map_of [(''status'', JStr ''ok'')] ''articles'' = None"
    by simp
  show ?thesis
    by (intro conjI g st jb mo missing_articles_field [OF g st jb mo, of s0 w0 "[]", THEN conjunct1])
qed

end
